theory Spec2Isabelle
  imports Main "HOL-Library.Sublist"
begin

section \<open>JavaScript strings\<close>

text \<open>
  A JavaScript string is modelled as a \<^typ>\<open>string\<close>: a list of code units, each below 256.
  That is the range of the header values the HTTP layer hands over, and of every literal in
  the controller. \<open>s.length\<close> is \<^const>\<open>length\<close>. The operations below compare code units
  and nothing else, except for the white space that \<open>trim\<close> and \<open>\s\<close> recognise.
\<close>

fun startsWith :: "string \<Rightarrow> string \<Rightarrow> bool" where
  "startsWith s [] = True"
| "startsWith [] (p # ps) = False"
| "startsWith (c # cs) (p # ps) = (c = p \<and> startsWith cs ps)"

text \<open>\<open>s.includes(sub)\<close>: there is a position of \<open>s\<close> at which \<open>sub\<close> starts.\<close>

fun includes_js :: "string \<Rightarrow> string \<Rightarrow> bool" where
  "includes_js [] sub = (sub = [])"
| "includes_js (c # cs) sub = (startsWith (c # cs) sub \<or> includes_js cs sub)"

text \<open>\<open>s.split(sep)\<close> for a one-character separator: never empty, \<open>''.split('.')\<close> is \<open>['']\<close>.\<close>

fun split_on :: "char \<Rightarrow> string \<Rightarrow> string list" where
  "split_on sep [] = [[]]"
| "split_on sep (c # cs) =
     (if c = sep then [] # split_on sep cs
      else (case split_on sep cs of
              [] \<Rightarrow> [[c]]
            | seg # segs \<Rightarrow> (c # seg) # segs))"

text \<open>\<open>xs[i]\<close>: \<open>undefined\<close> (here \<open>None\<close>) out of range.\<close>

fun index_js :: "'a list \<Rightarrow> nat \<Rightarrow> 'a option" where
  "index_js [] i = None"
| "index_js (x # xs) 0 = Some x"
| "index_js (x # xs) (Suc i) = index_js xs i"

text \<open>
  White space as \<open>\s\<close> and \<open>trim()\<close> see it, among the code units below 256: tab, line feed,
  vertical tab, form feed, carriage return, space and no-break space.
\<close>

definition is_space :: "char \<Rightarrow> bool" where
  "is_space c = (of_char c \<in> {9, 10, 11, 12, 13, 32, 160 :: nat})"

definition trim :: "string \<Rightarrow> string" where
  "trim s = rev (dropWhile is_space (rev (dropWhile is_space s)))"

text \<open>
  Case folding of the \<open>i\<close> flag on a pattern of ASCII letters: a code unit matches a letter
  of the pattern when it is that letter in upper or lower case.
\<close>

definition ascii_lower :: "char \<Rightarrow> char" where
  "ascii_lower c =
     (let n = (of_char c :: nat) in if 65 \<le> n \<and> n \<le> 90 then char_of (n + 32) else c)"

text \<open>
  \<open>s.replace(/^Bearer\s+/i, '')\<close>: when \<open>s\<close> starts with the six letters in any case, followed
  by at least one white space character, the letters and the whole run of white space after
  them are removed (the quantifier is greedy and nothing follows it); otherwise \<open>s\<close> is
  returned as it is.
\<close>

definition replace_Bearer :: "string \<Rightarrow> string" where
  "replace_Bearer s =
     (if map ascii_lower (take 6 s) = ''bearer''
         \<and> (case drop 6 s of [] \<Rightarrow> False | c # cs \<Rightarrow> is_space c)
      then dropWhile is_space (drop 6 s)
      else s)"

section \<open>JavaScript values and exceptions\<close>

text \<open>
  The values the controller handles with the type \<open>any\<close>: what \<open>JSON.parse\<close> returns and what
  a request body holds. A number carries its literal, the controller never computes with
  one. An object is its list of properties in insertion order; the last binding of a name is
  the property's value. \<open>JFun\<close> is a built-in function, named.
\<close>

datatype jsval =
    JUndefined
  | JNull
  | JBool bool
  | JNum string
  | JStr string
  | JArr "jsval list"
  | JObj "(string \<times> jsval) list"
  | JFun string

text \<open>The own property of an object, \<open>None\<close> when it has none of that name.\<close>

definition property :: "(string \<times> jsval) list \<Rightarrow> string \<Rightarrow> jsval option" where
  "property props name = map_of (rev props) name"

datatype ex_code = API_REQUEST_FAILED

datatype js_error =
    TypeError
  | SyntaxError
  | APIException ex_code string
  | BackendFailure string

text \<open>
  \<open>v.name\<close> for the property names the controller reads: \<open>app_id\<close>, \<open>typ\<close>, \<open>device_id\<close>,
  \<open>ssid\<close>, \<open>sub\<close>, \<open>content\<close>, \<open>type\<close> and \<open>text\<close>. Reading a property of \<open>undefined\<close> or
  \<open>null\<close> throws a TypeError. An object answers with its own property or \<open>undefined\<close>
  (\<open>Object.prototype\<close> has none of these names). Of the primitives and arrays only a string
  has one of them: \<open>String.prototype.sub\<close>.
\<close>

fun get_prop :: "jsval \<Rightarrow> string \<Rightarrow> js_error + jsval" where
  "get_prop JUndefined name = Inl TypeError"
| "get_prop JNull name = Inl TypeError"
| "get_prop (JObj props) name =
     Inr (case property props name of None \<Rightarrow> JUndefined | Some v \<Rightarrow> v)"
| "get_prop (JStr s) name = Inr (if name = ''sub'' then JFun ''sub'' else JUndefined)"
| "get_prop (JBool b) name = Inr JUndefined"
| "get_prop (JNum n) name = Inr JUndefined"
| "get_prop (JArr xs) name = Inr JUndefined"
| "get_prop (JFun f) name = Inr JUndefined"

section \<open>Scenario resolution\<close>

record scenario_selection =
  scenario :: string
  thinking :: bool

definition resolveScenario :: "string \<Rightarrow> scenario_selection" where
  "resolveScenario model =
     (let thinking = includes_js model ''thinking'' in
      if includes_js model ''k2.5'' then
        \<lparr>scenario = ''SCENARIO_K2'', thinking = thinking\<rparr>
      else if includes_js model ''search'' then
        \<lparr>scenario = ''SCENARIO_SEARCH'', thinking = thinking\<rparr>
      else if includes_js model ''research'' then
        \<lparr>scenario = ''SCENARIO_RESEARCH'', thinking = thinking\<rparr>
      else if includes_js model ''k1'' then
        \<lparr>scenario = ''SCENARIO_K1'', thinking = thinking\<rparr>
      else
        \<lparr>scenario = ''SCENARIO_K2'', thinking = thinking\<rparr>)"

section \<open>Collaborators and effects\<close>

record connect_config =
  baseUrl :: string
  authToken :: string
  deviceId :: jsval
  sessionId :: jsval
  userId :: jsval

text \<open>What \<open>client.chatText\<close> resolves to: \<open>chatId\<close> may be missing, \<open>text\<close> is a string.\<close>

record chat_response =
  chatId :: "string option"
  response_text :: string

text \<open>
  One message of \<open>client.chat\<close>. The optional chain \<open>msg.block?.text?.content\<close> has a link
  that may be missing at each level.
\<close>

record text_block =
  text_content :: "string option"

record block =
  block_text :: "text_block option"

record connect_message =
  msg_block :: "block option"
  msg_done :: bool

text \<open>
  What the controller does not define itself is a parameter of the model: the runtime's
  base64 decoder (\<open>Buffer.from(s, 'base64').toString()\<close>, which never throws on a string),
  \<open>JSON.parse\<close> (which throws on text that is no JSON), the conversion of a value that is
  not a string to a string (as \<open>join\<close> does it), \<open>util.uuid\<close> and \<open>util.unixTimestamp\<close> (the
  \<open>k\<close>-th identifier and the \<open>k\<close>-th clock reading), and the two operations of the RPC client.
\<close>

record env =
  base64_toString :: "string \<Rightarrow> string"
  JSON_parse :: "string \<Rightarrow> js_error + jsval"
  ToString :: "jsval \<Rightarrow> js_error + string"
  uuid :: "nat \<Rightarrow> string"
  unixTimestamp :: "nat \<Rightarrow> nat"
  chatText :: "connect_config \<Rightarrow> string \<Rightarrow> scenario_selection \<Rightarrow> js_error + chat_response"
  chat :: "connect_config \<Rightarrow> string \<Rightarrow> scenario_selection \<Rightarrow> js_error + connect_message list"

text \<open>
  The effects of a call, in the order they happen: lines of diagnostic output (their
  interpolated values left out where they are not the model name), the construction of an
  RPC client and the calls of its operations.
\<close>

datatype log_line =
    Using_Connect_RPC string
  | Using_Connect_RPC_streaming string
  | Model_scenario string scenario_selection
  | Stream_error js_error

datatype event =
    Console_log string
  | Logger_info log_line
  | Logger_error log_line
  | New_ConnectRPCClient connect_config
  | Client_chatText connect_config string scenario_selection
  | Client_chat connect_config string scenario_selection

record world =
  trace :: "event list"
  uuids_drawn :: nat
  clock_reads :: nat

definition emit :: "event \<Rightarrow> world \<Rightarrow> world" where
  "emit e w = w\<lparr>trace := trace w @ [e]\<rparr>"

definition util_uuid :: "env \<Rightarrow> world \<Rightarrow> string \<times> world" where
  "util_uuid env w = (uuid env (uuids_drawn w), w\<lparr>uuids_drawn := Suc (uuids_drawn w)\<rparr>)"

definition util_unixTimestamp :: "env \<Rightarrow> world \<Rightarrow> nat \<times> world" where
  "util_unixTimestamp env w =
     (unixTimestamp env (clock_reads w), w\<lparr>clock_reads := Suc (clock_reads w)\<rparr>)"

definition is_rpc_event :: "event \<Rightarrow> bool" where
  "is_rpc_event e =
     (case e of
        New_ConnectRPCClient c \<Rightarrow> True
      | Client_chatText c t s \<Rightarrow> True
      | Client_chat c t s \<Rightarrow> True
      | _ \<Rightarrow> False)"

text \<open>The constructions and calls of the RPC collaborator, in order.\<close>

definition rpc_events :: "world \<Rightarrow> event list" where
  "rpc_events w = filter is_rpc_event (trace w)"

text \<open>How often the RPC collaborator was constructed or called.\<close>

definition rpc_count :: "world \<Rightarrow> nat" where
  "rpc_count w = length (filter is_rpc_event (trace w))"

section \<open>Credential extraction\<close>

text \<open>A header value is falsy when the header is missing or its value is the empty string.\<close>

fun truthy :: "string option \<Rightarrow> bool" where
  "truthy None = False"
| "truthy (Some s) = (s \<noteq> [])"

text \<open>
  The controller throws one exception class with one code and tells its failures apart by
  the message. The two of \<open>extractAuthToken\<close> are named here as the specification names them.
\<close>

definition MissingCredential :: js_error where
  "MissingCredential =
     APIException API_REQUEST_FAILED ''Missing Authorization header or x-goog-api-key''"

definition InvalidCredentialFormat :: js_error where
  "InvalidCredentialFormat =
     APIException API_REQUEST_FAILED ''Invalid Authorization header format''"

definition extractAuthToken :: "(string \<rightharpoonup> string) \<Rightarrow> world \<Rightarrow> (js_error + string) \<times> world" where
  "extractAuthToken headers w =
     (let authorization = headers ''authorization'';
          apiKey = headers ''x-goog-api-key'';
          w1 = emit (Console_log ''DEBUG: All headers:'') w;
          w2 = emit (Console_log ''DEBUG: Auth header found:'') w1;
          w3 = emit (Console_log ''DEBUG: API key found:'') w2;
          tokenHeader =
            (if \<not> truthy authorization \<and> truthy apiKey
             then (case apiKey of None \<Rightarrow> None | Some k \<Rightarrow> Some (''Bearer '' @ k))
             else authorization)
      in case tokenHeader of
           None \<Rightarrow> (Inl MissingCredential, w3)
         | Some h \<Rightarrow>
             if h = [] then (Inl MissingCredential, w3)
             else
               (let token = trim (replace_Bearer h)
                in if token = [] then (Inl InvalidCredentialFormat, w3)
                   else (Inr token, w3)))"

section \<open>Credential classification and claims\<close>

datatype token_type = Jwt | Refresh

text \<open>
  The expression \<open>JSON.parse(Buffer.from(token.split('.')[1], 'base64').toString())\<close>, which
  the controller writes in four places. \<open>Buffer.from\<close> throws a TypeError when the token has no
  second segment and its argument is \<open>undefined\<close>.
\<close>

definition parse_payload :: "env \<Rightarrow> string \<Rightarrow> js_error + jsval" where
  "parse_payload env token =
     (case index_js (split_on CHR ''.'' token) 1 of
        None \<Rightarrow> Inl TypeError
      | Some segment \<Rightarrow> JSON_parse env (base64_toString env segment))"

text \<open>
  The body of the \<open>try\<close> block of \<open>detectTokenType\<close>: \<open>Some Jwt\<close> when it returns, \<open>None\<close> when
  it falls through, an error when it throws. \<open>&&\<close> reads \<open>typ\<close> only when \<open>app_id\<close> matched.
\<close>

definition detectTokenType_try :: "env \<Rightarrow> string \<Rightarrow> js_error + token_type option" where
  "detectTokenType_try env token =
     (case parse_payload env token of
        Inl e \<Rightarrow> Inl e
      | Inr payload \<Rightarrow>
          (case get_prop payload ''app_id'' of
             Inl e \<Rightarrow> Inl e
           | Inr app_id \<Rightarrow>
               if app_id = JStr ''kimi'' then
                 (case get_prop payload ''typ'' of
                    Inl e \<Rightarrow> Inl e
                  | Inr typ \<Rightarrow> if typ = JStr ''access'' then Inr (Some Jwt) else Inr None)
               else Inr None))"

definition detectTokenType :: "env \<Rightarrow> string \<Rightarrow> js_error + token_type" where
  "detectTokenType env token =
     (if startsWith token ''eyJ'' \<and> length (split_on CHR ''.'' token) = 3 then
        (case detectTokenType_try env token of
           Inl e \<Rightarrow> Inr Refresh
         | Inr None \<Rightarrow> Inr Refresh
         | Inr (Some t) \<Rightarrow> Inr t)
      else Inr Refresh)"

definition extractDeviceIdFromJWT :: "env \<Rightarrow> string \<Rightarrow> js_error + jsval" where
  "extractDeviceIdFromJWT env token =
     (case (case parse_payload env token of
              Inl e \<Rightarrow> Inl e
            | Inr payload \<Rightarrow> get_prop payload ''device_id'') of
        Inl e \<Rightarrow> Inr JUndefined
      | Inr v \<Rightarrow> Inr v)"

definition extractSessionIdFromJWT :: "env \<Rightarrow> string \<Rightarrow> js_error + jsval" where
  "extractSessionIdFromJWT env token =
     (case (case parse_payload env token of
              Inl e \<Rightarrow> Inl e
            | Inr payload \<Rightarrow> get_prop payload ''ssid'') of
        Inl e \<Rightarrow> Inr JUndefined
      | Inr v \<Rightarrow> Inr v)"

definition extractUserIdFromJWT :: "env \<Rightarrow> string \<Rightarrow> js_error + jsval" where
  "extractUserIdFromJWT env token =
     (case (case parse_payload env token of
              Inl e \<Rightarrow> Inl e
            | Inr payload \<Rightarrow> get_prop payload ''sub'') of
        Inl e \<Rightarrow> Inr JUndefined
      | Inr v \<Rightarrow> Inr v)"

section \<open>Text of the last message\<close>

text \<open>\<open>messages[messages.length - 1]\<close>: \<open>undefined\<close> for the empty list.\<close>

definition lastMessage :: "jsval list \<Rightarrow> jsval" where
  "lastMessage messages = (case messages of [] \<Rightarrow> JUndefined | m # ms \<Rightarrow> last messages)"

text \<open>\<open>.filter((item) => item.type === 'text')\<close>: the callback throws on \<open>null\<close> or \<open>undefined\<close>.\<close>

fun filter_text :: "jsval list \<Rightarrow> js_error + jsval list" where
  "filter_text [] = Inr []"
| "filter_text (item # items) =
     (case get_prop item ''type'' of
        Inl e \<Rightarrow> Inl e
      | Inr t \<Rightarrow>
          (case filter_text items of
             Inl e \<Rightarrow> Inl e
           | Inr kept \<Rightarrow> Inr (if t = JStr ''text'' then item # kept else kept)))"

text \<open>\<open>.map((item) => item.text)\<close>.\<close>

fun map_text :: "jsval list \<Rightarrow> js_error + jsval list" where
  "map_text [] = Inr []"
| "map_text (item # items) =
     (case get_prop item ''text'' of
        Inl e \<Rightarrow> Inl e
      | Inr t \<Rightarrow> (case map_text items of Inl e \<Rightarrow> Inl e | Inr ts \<Rightarrow> Inr (t # ts)))"

text \<open>
  \<open>.join(sep)\<close>: \<open>undefined\<close> and \<open>null\<close> contribute the empty string, a string itself, any
  other value what the runtime converts it to.
\<close>

definition join_item :: "env \<Rightarrow> jsval \<Rightarrow> js_error + string" where
  "join_item env v =
     (case v of
        JUndefined \<Rightarrow> Inr []
      | JNull \<Rightarrow> Inr []
      | JStr s \<Rightarrow> Inr s
      | _ \<Rightarrow> ToString env v)"

fun join_js :: "env \<Rightarrow> string \<Rightarrow> jsval list \<Rightarrow> js_error + string" where
  "join_js env sep [] = Inr []"
| "join_js env sep [v] = join_item env v"
| "join_js env sep (v # v' # vs) =
     (case join_item env v of
        Inl e \<Rightarrow> Inl e
      | Inr s \<Rightarrow>
          (case join_js env sep (v' # vs) of
             Inl e \<Rightarrow> Inl e
           | Inr r \<Rightarrow> Inr (s @ sep @ r)))"

text \<open>
  Lines 107 to 117 of \<open>createCompletionV2\<close>, and the same statements at lines 215 to 225 of
  \<open>createCompletionStreamV2\<close>: the value of \<open>messageContent\<close>, or what is thrown.
\<close>

definition messageContent :: "env \<Rightarrow> jsval list \<Rightarrow> js_error + string" where
  "messageContent env messages =
     (case get_prop (lastMessage messages) ''content'' of
        Inl e \<Rightarrow> Inl e
      | Inr content \<Rightarrow>
          (case content of
             JStr s \<Rightarrow> Inr s
           | JArr items \<Rightarrow>
               (case filter_text items of
                  Inl e \<Rightarrow> Inl e
                | Inr kept \<Rightarrow>
                    (case map_text kept of
                       Inl e \<Rightarrow> Inl e
                     | Inr texts \<Rightarrow> join_js env [CHR 0x0A] texts))
           | _ \<Rightarrow> Inr []))"

section \<open>Completion\<close>

record assistant_message =
  role :: string
  message_content :: string

record completion_choice =
  choice_index :: nat
  message :: assistant_message
  choice_finish_reason :: string

record usage =
  prompt_tokens :: nat
  completion_tokens :: nat
  total_tokens :: nat

record completion =
  completion_id :: string
  completion_model :: string
  completion_object :: string
  completion_choices :: "completion_choice list"
  completion_usage :: usage
  completion_created :: nat

text \<open>
  The failure of both entry points on a credential that is not a JWT. The two messages
  differ in their end: \<open>createCompletionV2\<close> adds a pointer to the configuration guide.
\<close>

definition UnsupportedCredentialType :: "string \<Rightarrow> js_error" where
  "UnsupportedCredentialType guide =
     APIException API_REQUEST_FAILED
       (''Connect RPC requires JWT token. Please extract kimi-auth from browser cookies.''
        @ guide)"

text \<open>The object literal \<open>config\<close>, written alike in both entry points.\<close>

definition connect_config_of :: "env \<Rightarrow> string \<Rightarrow> js_error + connect_config" where
  "connect_config_of env token =
     (case extractDeviceIdFromJWT env token of
        Inl e \<Rightarrow> Inl e
      | Inr d \<Rightarrow>
          (case extractSessionIdFromJWT env token of
             Inl e \<Rightarrow> Inl e
           | Inr s \<Rightarrow>
               (case extractUserIdFromJWT env token of
                  Inl e \<Rightarrow> Inl e
                | Inr u \<Rightarrow>
                    Inr \<lparr>baseUrl = ''https://www.kimi.com'', authToken = token,
                         deviceId = d, sessionId = s, userId = u\<rparr>)))"

definition createCompletionV2 ::
  "env \<Rightarrow> string \<Rightarrow> jsval list \<Rightarrow> string \<Rightarrow> world \<Rightarrow> (js_error + completion) \<times> world" where
  "createCompletionV2 env model messages token w =
     (let w1 = emit (Logger_info (Using_Connect_RPC model)) w in
      case detectTokenType env token of
        Inl e \<Rightarrow> (Inl e, w1)
      | Inr tokenType \<Rightarrow>
          if tokenType \<noteq> Jwt then
            (Inl (UnsupportedCredentialType '' See docs/CONNECT_RPC_CONFIG_GUIDE.md''), w1)
          else
            (case messageContent env messages of
               Inl e \<Rightarrow> (Inl e, w1)
             | Inr content \<Rightarrow>
                 (case connect_config_of env token of
                    Inl e \<Rightarrow> (Inl e, w1)
                  | Inr config \<Rightarrow>
                      (let w2 = emit (New_ConnectRPCClient config) w1;
                           sel = resolveScenario model;
                           w3 = emit (Logger_info (Model_scenario model sel)) w2;
                           w4 = emit (Client_chatText config content sel) w3
                       in case chatText env config content sel of
                            Inl e \<Rightarrow> (Inl e, w4)
                          | Inr response \<Rightarrow>
                              (let (ident, w5) =
                                     (case chatId response of
                                        None \<Rightarrow> util_uuid env w4
                                      | Some c \<Rightarrow> if c = [] then util_uuid env w4 else (c, w4));
                                   (created, w6) = util_unixTimestamp env w5
                               in (Inr \<lparr>completion_id = ident,
                                        completion_model = model,
                                        completion_object = ''chat.completion'',
                                        completion_choices =
                                          [\<lparr>choice_index = 0,
                                            message = \<lparr>role = ''assistant'',
                                                        message_content = response_text response\<rparr>,
                                            choice_finish_reason = ''stop''\<rparr>],
                                        completion_usage =
                                          \<lparr>prompt_tokens = length content,
                                           completion_tokens = length (response_text response),
                                           total_tokens =
                                             length content + length (response_text response)\<rparr>,
                                        completion_created = created\<rparr>, w6))))))"

section \<open>Streaming\<close>

record delta =
  delta_content :: "string option"

record chunk_choice =
  chunk_index :: nat
  chunk_delta :: delta
  finish_reason :: "string option"

record chunk =
  chunk_id :: string
  chunk_object :: string
  chunk_created :: nat
  chunk_model :: string
  chunk_choices :: "chunk_choice list"

text \<open>
  What is written to the stream: \<open>Chunk_frame c\<close> is the text
  \<open>data: ${JSON.stringify(c)}\n\n\<close>, \<open>Raw_frame s\<close> is the text \<open>s\<close>. The first starts with
  \<open>data: {\<close>, so it is never the text \<open>data: [DONE]\n\n\<close>.
\<close>

datatype frame = Chunk_frame chunk | Raw_frame string

datatype stream_status = Flowing | Ended | Destroyed js_error

record pass_through =
  written :: "frame list"
  status :: stream_status

definition new_PassThrough :: pass_through where
  "new_PassThrough = \<lparr>written = [], status = Flowing\<rparr>"

definition stream_write :: "frame \<Rightarrow> pass_through \<Rightarrow> pass_through" where
  "stream_write f st = st\<lparr>written := written st @ [f]\<rparr>"

definition stream_end :: "pass_through \<Rightarrow> pass_through" where
  "stream_end st = st\<lparr>status := Ended\<rparr>"

definition stream_destroy :: "js_error \<Rightarrow> pass_through \<Rightarrow> pass_through" where
  "stream_destroy e st = st\<lparr>status := Destroyed e\<rparr>"

definition done_frame :: frame where
  "done_frame = Raw_frame (''data: [DONE]'' @ [CHR 0x0A, CHR 0x0A])"

text \<open>\<open>msg.block?.text?.content\<close>: \<open>None\<close> is \<open>undefined\<close>.\<close>

definition block_text_content :: "connect_message \<Rightarrow> string option" where
  "block_text_content msg =
     (case msg_block msg of
        None \<Rightarrow> None
      | Some b \<Rightarrow> (case block_text b of None \<Rightarrow> None | Some t \<Rightarrow> text_content t))"

text \<open>The object literals \<open>chunk\<close> and \<open>endChunk\<close>: an identifier is drawn, then the clock is read.\<close>

definition content_chunk :: "env \<Rightarrow> string \<Rightarrow> string \<Rightarrow> world \<Rightarrow> chunk \<times> world" where
  "content_chunk env model c w =
     (let (ident, w1) = util_uuid env w;
          (created, w2) = util_unixTimestamp env w1
      in (\<lparr>chunk_id = ident, chunk_object = ''chat.completion.chunk'',
           chunk_created = created, chunk_model = model,
           chunk_choices =
             [\<lparr>chunk_index = 0, chunk_delta = \<lparr>delta_content = Some c\<rparr>,
               finish_reason = None\<rparr>]\<rparr>, w2))"

definition end_chunk :: "env \<Rightarrow> string \<Rightarrow> world \<Rightarrow> chunk \<times> world" where
  "end_chunk env model w =
     (let (ident, w1) = util_uuid env w;
          (created, w2) = util_unixTimestamp env w1
      in (\<lparr>chunk_id = ident, chunk_object = ''chat.completion.chunk'',
           chunk_created = created, chunk_model = model,
           chunk_choices =
             [\<lparr>chunk_index = 0, chunk_delta = \<lparr>delta_content = None\<rparr>,
               finish_reason = Some ''stop''\<rparr>]\<rparr>, w2))"

text \<open>
  The first statement of the loop body: \<open>if (msg.block?.text?.content) { ... }\<close>. The test is
  false for \<open>undefined\<close> and for the empty string.
\<close>

definition write_content_chunk ::
  "env \<Rightarrow> string \<Rightarrow> connect_message \<Rightarrow> world \<times> pass_through \<Rightarrow> world \<times> pass_through" where
  "write_content_chunk env model msg s =
     (case s of (w, stream) \<Rightarrow>
        (case block_text_content msg of
           None \<Rightarrow> (w, stream)
         | Some c \<Rightarrow>
             if c = [] then (w, stream)
             else
               (let (chunk, w') = content_chunk env model c w
                in (w', stream_write (Chunk_frame chunk) stream))))"

text \<open>The body of \<open>if (msg.done) { ... }\<close> up to its \<open>break\<close>.\<close>

definition write_end_chunk ::
  "env \<Rightarrow> string \<Rightarrow> world \<times> pass_through \<Rightarrow> world \<times> pass_through" where
  "write_end_chunk env model s =
     (case s of (w, stream) \<Rightarrow>
        (let (endChunk, w') = end_chunk env model w;
             stream1 = stream_write (Chunk_frame endChunk) stream;
             stream2 = stream_write done_frame stream1
         in (w', stream2)))"

text \<open>
  The loop \<open>for (const msg of connectMessages)\<close>. It returns the world and the stream it
  leaves, and the messages the iteration never reached: those after a \<open>break\<close>.
\<close>

fun for_connectMessages ::
  "env \<Rightarrow> string \<Rightarrow> connect_message list \<Rightarrow> world \<times> pass_through
     \<Rightarrow> (world \<times> pass_through) \<times> connect_message list" where
  "for_connectMessages env model [] s = (s, [])"
| "for_connectMessages env model (msg # rest) s =
     (let s1 = write_content_chunk env model msg s
      in if msg_done msg then (write_end_chunk env model s1, rest)
         else for_connectMessages env model rest s1)"

text \<open>
  \<open>createCompletionStreamV2\<close> returns the stream at once and fills it from a task of its own.
  The model returns the stream as that task leaves it: the task runs on its own through the
  messages the client resolved to, one after the other.
\<close>

definition createCompletionStreamV2 ::
  "env \<Rightarrow> string \<Rightarrow> jsval list \<Rightarrow> string \<Rightarrow> world \<Rightarrow> (js_error + pass_through) \<times> world" where
  "createCompletionStreamV2 env model messages token w =
     (let w1 = emit (Logger_info (Using_Connect_RPC_streaming model)) w in
      case detectTokenType env token of
        Inl e \<Rightarrow> (Inl e, w1)
      | Inr tokenType \<Rightarrow>
          if tokenType \<noteq> Jwt then (Inl (UnsupportedCredentialType []), w1)
          else
            (case messageContent env messages of
               Inl e \<Rightarrow> (Inl e, w1)
             | Inr content \<Rightarrow>
                 (case connect_config_of env token of
                    Inl e \<Rightarrow> (Inl e, w1)
                  | Inr config \<Rightarrow>
                      (let w2 = emit (New_ConnectRPCClient config) w1;
                           sel = resolveScenario model;
                           w3 = emit (Logger_info (Model_scenario model sel)) w2;
                           stream = new_PassThrough;
                           w4 = emit (Client_chat config content sel) w3
                       in case chat env config content sel of
                            Inl error \<Rightarrow>
                              (Inr (stream_destroy error stream),
                               emit (Logger_error (Stream_error error)) w4)
                          | Inr connectMessages \<Rightarrow>
                              (let ((w5, stream'), unread) =
                                     for_connectMessages env model connectMessages (w4, stream)
                               in (Inr (stream_end stream'), w5))))))"

section \<open>A runtime to evaluate with\<close>

text \<open>
  Every theorem below holds for any \<^typ>\<open>env\<close>. To evaluate the controller on a concrete
  credential, this section defines one: a base64 decoder for the standard and the URL-safe
  alphabet that skips any other character and stops at the padding, and a parser for JSON
  text whose string escapes stay below code unit 256. The parsers take a list as fuel, one
  element for each level of nesting; the text itself and one more element is enough.
\<close>

definition b64_value :: "char \<Rightarrow> nat option" where
  "b64_value c =
     (let n = (of_char c :: nat) in
      if 65 \<le> n \<and> n \<le> 90 then Some (n - 65)
      else if 97 \<le> n \<and> n \<le> 122 then Some (n - 71)
      else if 48 \<le> n \<and> n \<le> 57 then Some (n + 4)
      else if n = 43 \<or> n = 45 then Some 62
      else if n = 47 \<or> n = 95 then Some 63
      else None)"

fun b64_bytes :: "nat list \<Rightarrow> string" where
  "b64_bytes (a # b # c # d # rest) =
     char_of (a * 4 + b div 16) # char_of ((b mod 16) * 16 + c div 4)
       # char_of ((c mod 4) * 64 + d) # b64_bytes rest"
| "b64_bytes [a, b, c] = [char_of (a * 4 + b div 16), char_of ((b mod 16) * 16 + c div 4)]"
| "b64_bytes [a, b] = [char_of (a * 4 + b div 16)]"
| "b64_bytes _ = []"

definition base64_decode :: "string \<Rightarrow> string" where
  "base64_decode s = b64_bytes (List.map_filter b64_value (takeWhile (\<lambda>c. c \<noteq> CHR ''='') s))"

definition json_space :: "char \<Rightarrow> bool" where
  "json_space c = (of_char c \<in> {9, 10, 13, 32 :: nat})"

definition is_digit :: "char \<Rightarrow> bool" where
  "is_digit c = (48 \<le> (of_char c :: nat) \<and> (of_char c :: nat) \<le> 57)"

definition hex_value :: "char \<Rightarrow> nat option" where
  "hex_value c =
     (let n = (of_char c :: nat) in
      if 48 \<le> n \<and> n \<le> 57 then Some (n - 48)
      else if 65 \<le> n \<and> n \<le> 70 then Some (n - 55)
      else if 97 \<le> n \<and> n \<le> 102 then Some (n - 87)
      else None)"

definition unescape :: "char \<Rightarrow> char option" where
  "unescape c =
     (if c = CHR 0x22 then Some (CHR 0x22)
      else if c = CHR 0x5C then Some (CHR 0x5C)
      else if c = CHR ''/'' then Some (CHR ''/'')
      else if c = CHR ''b'' then Some (CHR 0x08)
      else if c = CHR ''f'' then Some (CHR 0x0C)
      else if c = CHR ''n'' then Some (CHR 0x0A)
      else if c = CHR ''r'' then Some (CHR 0x0D)
      else if c = CHR ''t'' then Some (CHR 0x09)
      else None)"

fun json_chars :: "string \<Rightarrow> string \<Rightarrow> (string \<times> string) option" where
  "json_chars [] acc = None"
| "json_chars (c # cs) acc =
     (if c = CHR 0x22 then Some (rev acc, cs)
      else if c = CHR 0x5C then
        (case cs of
           [] \<Rightarrow> None
         | e # cs' \<Rightarrow>
             if e = CHR ''u'' then
               (case cs' of
                  h1 # h2 # h3 # h4 # cs'' \<Rightarrow>
                    (case (hex_value h1, hex_value h2, hex_value h3, hex_value h4) of
                       (Some a, Some b, Some c, Some d) \<Rightarrow>
                         if a = 0 \<and> b = 0 then json_chars cs'' (char_of (c * 16 + d) # acc)
                         else None
                     | _ \<Rightarrow> None)
                | _ \<Rightarrow> None)
             else
               (case unescape e of
                  None \<Rightarrow> None
                | Some u \<Rightarrow> json_chars cs' (u # acc)))
      else if (of_char c :: nat) < 32 then None
      else json_chars cs (c # acc))"

definition json_number :: "string \<Rightarrow> (string \<times> string) option" where
  "json_number s =
     (let sign = (if startsWith s ''-'' then ''-'' else []);
          s1 = drop (length sign) s;
          int_part = takeWhile is_digit s1;
          s2 = drop (length int_part) s1;
          frac = (if startsWith s2 ''.'' then CHR ''.'' # takeWhile is_digit (drop 1 s2) else []);
          s3 = drop (length frac) s2;
          e_mark = (if startsWith s3 ''e'' \<or> startsWith s3 ''E'' then take 1 s3 else []);
          s4 = drop (length e_mark) s3;
          e_sign = (if e_mark \<noteq> [] \<and> (startsWith s4 ''+'' \<or> startsWith s4 ''-'') then take 1 s4 else []);
          s5 = drop (length e_sign) s4;
          e_digits = (if e_mark \<noteq> [] then takeWhile is_digit s5 else []);
          s6 = drop (length e_digits) s5
      in if int_part = [] \<or> (length int_part > 1 \<and> startsWith int_part ''0'')
            \<or> length frac = 1 \<or> (e_mark \<noteq> [] \<and> e_digits = [])
         then None
         else Some (sign @ int_part @ frac @ e_mark @ e_sign @ e_digits, s6))"

fun json_value :: "'a list \<Rightarrow> string \<Rightarrow> (jsval \<times> string) option"
  and json_elements :: "'a list \<Rightarrow> string \<Rightarrow> jsval list \<Rightarrow> (jsval \<times> string) option"
  and json_members :: "'a list \<Rightarrow> string \<Rightarrow> (string \<times> jsval) list \<Rightarrow> (jsval \<times> string) option"
where
  "json_value [] s = None"
| "json_value (f # fuel) s =
     (case dropWhile json_space s of
        [] \<Rightarrow> None
      | c # cs \<Rightarrow>
          if c = CHR ''{'' then
            (case dropWhile json_space cs of
               [] \<Rightarrow> None
             | c' # cs' \<Rightarrow> if c' = CHR ''}'' then Some (JObj [], cs') else json_members fuel cs [])
          else if c = CHR ''['' then
            (case dropWhile json_space cs of
               [] \<Rightarrow> None
             | c' # cs' \<Rightarrow> if c' = CHR '']'' then Some (JArr [], cs') else json_elements fuel cs [])
          else if c = CHR 0x22 then
            (case json_chars cs [] of None \<Rightarrow> None | Some (str, r) \<Rightarrow> Some (JStr str, r))
          else if startsWith (c # cs) ''true'' then Some (JBool True, drop 4 (c # cs))
          else if startsWith (c # cs) ''false'' then Some (JBool False, drop 5 (c # cs))
          else if startsWith (c # cs) ''null'' then Some (JNull, drop 4 (c # cs))
          else (case json_number (c # cs) of None \<Rightarrow> None | Some (n, r) \<Rightarrow> Some (JNum n, r)))"
| "json_elements [] s acc = None"
| "json_elements (f # fuel) s acc =
     (case json_value fuel s of
        None \<Rightarrow> None
      | Some (v, r) \<Rightarrow>
          (case dropWhile json_space r of
             [] \<Rightarrow> None
           | c # r' \<Rightarrow>
               if c = CHR '','' then json_elements fuel r' (v # acc)
               else if c = CHR '']'' then Some (JArr (rev (v # acc)), r')
               else None))"
| "json_members [] s acc = None"
| "json_members (f # fuel) s acc =
     (case dropWhile json_space s of
        [] \<Rightarrow> None
      | q # r \<Rightarrow>
          if q \<noteq> CHR 0x22 then None
          else
            (case json_chars r [] of
               None \<Rightarrow> None
             | Some (k, r1) \<Rightarrow>
                 (case dropWhile json_space r1 of
                    [] \<Rightarrow> None
                  | colon # r2 \<Rightarrow>
                      if colon \<noteq> CHR '':'' then None
                      else
                        (case json_value fuel r2 of
                           None \<Rightarrow> None
                         | Some (v, r3) \<Rightarrow>
                             (case dropWhile json_space r3 of
                                [] \<Rightarrow> None
                              | c # r4 \<Rightarrow>
                                  if c = CHR '','' then json_members fuel r4 ((k, v) # acc)
                                  else if c = CHR ''}'' then Some (JObj (rev ((k, v) # acc)), r4)
                                  else None)))))"

definition json_parse :: "string \<Rightarrow> js_error + jsval" where
  "json_parse s =
     (case json_value (CHR ''.'' # s) s of
        None \<Rightarrow> Inl SyntaxError
      | Some (v, r) \<Rightarrow> if dropWhile json_space r = [] then Inr v else Inl SyntaxError)"

fun to_string :: "jsval \<Rightarrow> string" where
  "to_string JUndefined = ''undefined''"
| "to_string JNull = ''null''"
| "to_string (JBool b) = (if b then ''true'' else ''false'')"
| "to_string (JNum n) = n"
| "to_string (JStr s) = s"
| "to_string (JArr xs) =
     drop 1 (concat (map (\<lambda>x. CHR '','' # (if x = JUndefined \<or> x = JNull then [] else to_string x)) xs))"
| "to_string (JObj props) = ''[object Object]''"
| "to_string (JFun f) = ''function '' @ f @ ''() { [native code] }''"

definition reference_env :: env where
  "reference_env =
     \<lparr>base64_toString = base64_decode,
      JSON_parse = json_parse,
      ToString = (\<lambda>v. Inr (to_string v)),
      uuid = (\<lambda>k. ''id-'' @ replicate k (CHR ''i'')),
      unixTimestamp = (\<lambda>k. 1700000000 + k),
      chatText = (\<lambda>config content sel. Inr \<lparr>chatId = None, response_text = ''Hello!''\<rparr>),
      chat = (\<lambda>config content sel. Inr [])\<rparr>"

definition world0 :: world where
  "world0 = \<lparr>trace = [], uuids_drawn = 0, clock_reads = 0\<rparr>"

section \<open>Notions the properties are stated with\<close>

text \<open>Strings joined with a line feed between them.\<close>

fun newline_joined :: "string list \<Rightarrow> string" where
  "newline_joined [] = []"
| "newline_joined [s] = s"
| "newline_joined (s # t # ts) = s @ [CHR 0x0A] @ newline_joined (t # ts)"

text \<open>
  A typed part of a message content: an object, and when its type is \<open>text\<close> its text is a
  string.
\<close>

definition typed_part :: "jsval \<Rightarrow> bool" where
  "typed_part p =
     (case p of
        JObj props \<Rightarrow>
          (if property props ''type'' = Some (JStr ''text'')
           then (case property props ''text'' of Some (JStr t) \<Rightarrow> True | _ \<Rightarrow> False)
           else True)
      | _ \<Rightarrow> False)"

text \<open>The texts of the parts whose type is \<open>text\<close>, in order.\<close>

fun part_texts :: "jsval list \<Rightarrow> string list" where
  "part_texts [] = []"
| "part_texts (p # ps) =
     (case p of
        JObj props \<Rightarrow>
          (if property props ''type'' = Some (JStr ''text'')
           then (case property props ''text'' of Some (JStr t) \<Rightarrow> [t] | _ \<Rightarrow> [])
           else [])
      | _ \<Rightarrow> []) @ part_texts ps"

text \<open>A content that is neither a string nor a list.\<close>

definition other_shape :: "jsval \<Rightarrow> bool" where
  "other_shape v = (case v of JStr s \<Rightarrow> False | JArr xs \<Rightarrow> False | _ \<Rightarrow> True)"

text \<open>The texts the loop writes a chunk for: those that are there and not empty.\<close>

fun contents :: "connect_message list \<Rightarrow> string list" where
  "contents [] = []"
| "contents (m # ms) =
     (case block_text_content m of
        None \<Rightarrow> contents ms
      | Some c \<Rightarrow> if c = [] then contents ms else c # contents ms)"

text \<open>A frame that carries the text \<open>c\<close> as its delta, with no finish reason.\<close>

definition content_frame :: "string \<Rightarrow> frame \<Rightarrow> bool" where
  "content_frame c f =
     (case f of
        Chunk_frame ch \<Rightarrow>
          chunk_choices ch =
            [\<lparr>chunk_index = 0, chunk_delta = \<lparr>delta_content = Some c\<rparr>, finish_reason = None\<rparr>]
      | Raw_frame s \<Rightarrow> False)"

text \<open>The terminal chunk: an empty delta and the finish reason \<open>stop\<close>.\<close>

definition terminal_chunk :: "frame \<Rightarrow> bool" where
  "terminal_chunk f =
     (case f of
        Chunk_frame ch \<Rightarrow>
          chunk_choices ch =
            [\<lparr>chunk_index = 0, chunk_delta = \<lparr>delta_content = None\<rparr>,
              finish_reason = Some ''stop''\<rparr>]
      | Raw_frame s \<Rightarrow> False)"

text \<open>
  Inputs to evaluate with: a credential whose payload is
  \<open>{"app_id":"kimi","typ":"access","device_id":"d-1","sub":"u-9"}\<close>, one user message, and
  messages of the backend.
\<close>

definition access_token :: string where
  "access_token =
     ''eyJhbGciOiJIUzI1NiJ9.eyJhcHBfaWQiOiJraW1pIiwidHlwIjoiYWNjZXNzIiwiZGV2aWNlX2lkIjoiZC0xIiwic3ViIjoidS05In0.c2ln''"

definition user_message :: "jsval \<Rightarrow> jsval" where
  "user_message content = JObj [(''role'', JStr ''user''), (''content'', content)]"

definition text_message :: "string \<Rightarrow> bool \<Rightarrow> connect_message" where
  "text_message c d =
     \<lparr>msg_block = Some \<lparr>block_text = Some \<lparr>text_content = Some c\<rparr>\<rparr>, msg_done = d\<rparr>"

text \<open>The runtime above with a backend whose \<open>chat\<close> resolves to the given messages.\<close>

definition streaming_env :: "connect_message list \<Rightarrow> env" where
  "streaming_env msgs = reference_env\<lparr>chat := (\<lambda>config content sel. Inr msgs)\<rparr>"

section \<open>Properties of the string operations\<close>

lemma startsWith_prefix: "startsWith s p \<longleftrightarrow> prefix p s"
  by (induction s p rule: startsWith.induct) auto

lemma includes_js_sublist: "includes_js s sub \<longleftrightarrow> sublist sub s"
proof (induction s)
  case Nil
  then show ?case by simp
next
  case (Cons c cs)
  show ?case
  proof (cases sub)
    case Nil
    then show ?thesis by simp
  next
    case (Cons x xs)
    with Cons.IH show ?thesis
      by (simp add: startsWith_prefix sublist_Cons_right)
  qed
qed

lemma split_on_nonempty: "split_on sep s \<noteq> []"
  by (induction s) (auto split: list.splits)

lemma split_on_no_sep: "sep \<notin> set a \<Longrightarrow> split_on sep a = [a]"
  by (induction a) auto

lemma split_on_append:
  "sep \<notin> set a \<Longrightarrow> split_on sep (a @ sep # r) = a # split_on sep r"
  by (induction a) auto

lemma split_on_decomp:
  "split_on sep s = x # xs \<Longrightarrow>
     sep \<notin> set x \<and> (if xs = [] then s = x else (\<exists>r. s = x @ sep # r \<and> split_on sep r = xs))"
proof (induction s arbitrary: x xs)
  case Nil
  then show ?case by simp
next
  case (Cons c cs)
  show ?case
  proof (cases "c = sep")
    case True
    with Cons.prems show ?thesis by (auto simp: split_on_nonempty)
  next
    case False
    obtain y ys where r: "split_on sep cs = y # ys"
      using split_on_nonempty [of sep cs] by (cases "split_on sep cs") auto
    with False Cons.prems have x: "x = c # y" and xs: "xs = ys" by auto
    from Cons.IH [OF r] have ih: "sep \<notin> set y"
      "if ys = [] then cs = y else (\<exists>r. cs = y @ sep # r \<and> split_on sep r = ys)" by auto
    show ?thesis using False ih x xs by (auto split: if_splits)
  qed
qed

lemma split_on_three:
  "length (split_on sep t) = 3 \<longleftrightarrow>
     (\<exists>a b c. t = a @ sep # b @ sep # c \<and> sep \<notin> set a \<and> sep \<notin> set b \<and> sep \<notin> set c)"
proof
  assume "length (split_on sep t) = 3"
  then obtain a b c where s: "split_on sep t = [a, b, c]"
    by (auto simp: length_Suc_conv numeral_3_eq_3)
  from split_on_decomp [OF s] obtain r where a: "sep \<notin> set a" and t: "t = a @ sep # r"
    and r: "split_on sep r = [b, c]" by auto
  from split_on_decomp [OF r] obtain r' where b: "sep \<notin> set b" and r': "r = b @ sep # r'"
    and c: "split_on sep r' = [c]" by auto
  from split_on_decomp [OF c] have "sep \<notin> set c" "r' = c" by auto
  with a b t r' show "\<exists>a b c. t = a @ sep # b @ sep # c \<and> sep \<notin> set a \<and> sep \<notin> set b \<and> sep \<notin> set c"
    by auto
next
  assume "\<exists>a b c. t = a @ sep # b @ sep # c \<and> sep \<notin> set a \<and> sep \<notin> set b \<and> sep \<notin> set c"
  then show "length (split_on sep t) = 3"
    by (auto simp: split_on_append split_on_no_sep)
qed

lemma split_on_three_segments:
  "sep \<notin> set a \<Longrightarrow> sep \<notin> set b \<Longrightarrow> sep \<notin> set c \<Longrightarrow>
     split_on sep (a @ sep # b @ sep # c) = [a, b, c]"
  by (simp add: split_on_append split_on_no_sep)

lemma get_prop_eq_JStr:
  "get_prop v name = Inr (JStr s) \<longleftrightarrow>
     (\<exists>props. v = JObj props \<and> property props name = Some (JStr s))"
  by (cases v) (auto split: option.splits)

lemma detectTokenType_total: "detectTokenType env token = Inr Jwt \<or> detectTokenType env token = Inr Refresh"
  by (auto simp: detectTokenType_def detectTokenType_try_def split: sum.splits option.splits if_splits)

lemma detectTokenType_Jwt_iff:
  "detectTokenType env token = Inr Jwt \<longleftrightarrow>
     startsWith token ''eyJ'' \<and> length (split_on CHR ''.'' token) = 3
     \<and> (\<exists>props. parse_payload env token = Inr (JObj props)
           \<and> property props ''app_id'' = Some (JStr ''kimi'')
           \<and> property props ''typ'' = Some (JStr ''access''))"
proof -
  have body: "detectTokenType_try env token = Inr (Some Jwt) \<longleftrightarrow>
      (\<exists>props. parse_payload env token = Inr (JObj props)
           \<and> property props ''app_id'' = Some (JStr ''kimi'')
           \<and> property props ''typ'' = Some (JStr ''access''))"
  proof (cases "parse_payload env token")
    case (Inl e)
    then show ?thesis by (simp add: detectTokenType_try_def)
  next
    case (Inr payload)
    then show ?thesis
      by (cases payload) (auto simp: detectTokenType_try_def split: option.splits)
  qed
  have "detectTokenType env token = Inr Jwt \<longleftrightarrow>
      startsWith token ''eyJ'' \<and> length (split_on CHR ''.'' token) = 3
      \<and> detectTokenType_try env token = Inr (Some Jwt)"
    by (cases "detectTokenType_try env token")
       (auto simp: detectTokenType_def split: option.splits token_type.splits)
  with body show ?thesis by simp
qed

section \<open>Scenario resolution: first match wins\<close>

text \<open>
  Claim C3. \<open>resolveScenario\<close> depends on the model name only. The thinking flag is set
  exactly when the name contains \<open>thinking\<close>. The scenario is the first match of: contains
  \<open>k2.5\<close>, K2; contains \<open>search\<close>, SEARCH; contains \<open>research\<close>, RESEARCH; contains
  \<open>k1\<close>, K1; otherwise K2. A name containing both \<open>k2.5\<close> and \<open>search\<close> resolves to K2.
  Containment is stated with \<^const>\<open>sublist\<close>: the name is some text, the substring, some text.
\<close>

theorem resolveScenario_first_match:
  "thinking (resolveScenario model) = sublist ''thinking'' model
   \<and> scenario (resolveScenario model) =
       (if sublist ''k2.5'' model then ''SCENARIO_K2''
        else if sublist ''search'' model then ''SCENARIO_SEARCH''
        else if sublist ''research'' model then ''SCENARIO_RESEARCH''
        else if sublist ''k1'' model then ''SCENARIO_K1''
        else ''SCENARIO_K2'')
   \<and> (sublist ''k2.5'' model \<and> sublist ''search'' model
        \<longrightarrow> scenario (resolveScenario model) = ''SCENARIO_K2''
            \<and> scenario (resolveScenario model) \<noteq> ''SCENARIO_SEARCH'')"
  by (simp add: resolveScenario_def Let_def includes_js_sublist)

theorem resolveScenario_first_match_witness:
  "sublist ''k2.5'' ''kimi-k2.5-search'' \<and> sublist ''search'' ''kimi-k2.5-search''
   \<and> scenario (resolveScenario ''kimi-k2.5-search'') = ''SCENARIO_K2''
   \<and> thinking (resolveScenario ''kimi-k2.5-search'') = False"
proof -
  have a: "sublist ''k2.5'' ''kimi-k2.5-search''"
    by (simp add: includes_js_sublist [symmetric])
  have b: "sublist ''search'' ''kimi-k2.5-search''"
    by (simp add: includes_js_sublist [symmetric])
  have c: "\<not> sublist ''thinking'' ''kimi-k2.5-search''"
    by (simp add: includes_js_sublist [symmetric])
  from resolveScenario_first_match [of "''kimi-k2.5-search''"] a b c
  show ?thesis by simp
qed

text \<open>
  A consequence of the order of the tests: a name that contains \<open>research\<close> contains
  \<open>search\<close>, so the third test is never reached with a match and no name resolves to
  RESEARCH.
\<close>

lemma research_holds_search: "sublist ''research'' model \<Longrightarrow> sublist ''search'' model"
proof -
  assume "sublist ''research'' model"
  then obtain ps ss where "model = ps @ ''research'' @ ss"
    by (auto simp: sublist_def)
  then have "model = (ps @ ''re'') @ ''search'' @ ss" by simp
  then show "sublist ''search'' model"
    unfolding sublist_def by blast
qed

lemma resolveScenario_not_RESEARCH: "scenario (resolveScenario model) \<noteq> ''SCENARIO_RESEARCH''"
  using research_holds_search [of model]
  by (simp add: resolveScenario_def Let_def includes_js_sublist)

section \<open>Classification of a credential\<close>

lemma reference_payload:
  "json_parse (base64_decode ''eyJhcHBfaWQiOiJraW1pIiwidHlwIjoiYWNjZXNzIn0'')
     = Inr (JObj [(''app_id'', JStr ''kimi''), (''typ'', JStr ''access'')])"
  by code_simp

text \<open>
  Claim C1, as the code has it. \<open>detectTokenType\<close> never raises: it returns \<open>jwt\<close> or \<open>refresh\<close>.
  It returns \<open>jwt\<close> exactly for a string that starts with \<open>eyJ\<close>, has three dot-separated
  segments, and whose middle segment base64-decodes to a JSON object with \<open>app_id\<close> equal to
  \<open>kimi\<close> and \<open>typ\<close> equal to \<open>access\<close>; any other string classifies as \<open>refresh\<close>. The claim
  leaves the first condition out: a string of three segments with such a middle segment that
  does not start with \<open>eyJ\<close> classifies as \<open>refresh\<close>.
\<close>

theorem detectTokenType_classification:
  "(detectTokenType env token = Inr Jwt \<or> detectTokenType env token = Inr Refresh)
   \<and> (detectTokenType env token = Inr Jwt \<longleftrightarrow>
        (\<exists>rest. token = ''eyJ'' @ rest)
        \<and> (\<exists>a b c props.
              token = a @ ''.'' @ b @ ''.'' @ c
              \<and> CHR ''.'' \<notin> set a \<and> CHR ''.'' \<notin> set b \<and> CHR ''.'' \<notin> set c
              \<and> JSON_parse env (base64_toString env b) = Inr (JObj props)
              \<and> property props ''app_id'' = Some (JStr ''kimi'')
              \<and> property props ''typ'' = Some (JStr ''access'')))"
proof -
  have starts: "startsWith token ''eyJ'' \<longleftrightarrow> (\<exists>rest. token = ''eyJ'' @ rest)"
    by (auto simp: startsWith_prefix prefix_def)
  have segs: "length (split_on CHR ''.'' token) = 3
      \<and> (\<exists>props. parse_payload env token = Inr (JObj props)
           \<and> property props ''app_id'' = Some (JStr ''kimi'')
           \<and> property props ''typ'' = Some (JStr ''access''))
      \<longleftrightarrow> (\<exists>a b c props.
              token = a @ ''.'' @ b @ ''.'' @ c
              \<and> CHR ''.'' \<notin> set a \<and> CHR ''.'' \<notin> set b \<and> CHR ''.'' \<notin> set c
              \<and> JSON_parse env (base64_toString env b) = Inr (JObj props)
              \<and> property props ''app_id'' = Some (JStr ''kimi'')
              \<and> property props ''typ'' = Some (JStr ''access''))" (is "?L \<longleftrightarrow> ?R")
  proof
    assume l: ?L
    then obtain a b c where t: "token = a @ CHR ''.'' # b @ CHR ''.'' # c"
      and n: "CHR ''.'' \<notin> set a" "CHR ''.'' \<notin> set b" "CHR ''.'' \<notin> set c"
      unfolding split_on_three by blast
    from n have "split_on CHR ''.'' token = [a, b, c]"
      unfolding t by (rule split_on_three_segments)
    then have "parse_payload env token = JSON_parse env (base64_toString env b)"
      by (simp add: parse_payload_def)
    with l t n show ?R by auto
  next
    assume ?R
    then obtain a b c props where t: "token = a @ CHR ''.'' # b @ CHR ''.'' # c"
      and n: "CHR ''.'' \<notin> set a" "CHR ''.'' \<notin> set b" "CHR ''.'' \<notin> set c"
      and p: "JSON_parse env (base64_toString env b) = Inr (JObj props)"
         "property props ''app_id'' = Some (JStr ''kimi'')"
         "property props ''typ'' = Some (JStr ''access'')"
      by auto
    from n have s: "split_on CHR ''.'' token = [a, b, c]"
      unfolding t by (rule split_on_three_segments)
    then have "parse_payload env token = JSON_parse env (base64_toString env b)"
      by (simp add: parse_payload_def)
    with s p show ?L by simp
  qed
  show ?thesis
    using detectTokenType_total [of env token] detectTokenType_Jwt_iff [of env token] starts segs
    by blast
qed

theorem detectTokenType_classification_witness:
  "detectTokenType reference_env ''eyJhbGciOiJIUzI1NiJ9.eyJhcHBfaWQiOiJraW1pIiwidHlwIjoiYWNjZXNzIn0.c2ln'' = Inr Jwt"
proof -
  let ?a = "''eyJhbGciOiJIUzI1NiJ9''"
  let ?b = "''eyJhcHBfaWQiOiJraW1pIiwidHlwIjoiYWNjZXNzIn0''"
  let ?c = "''c2ln''"
  let ?props = "[(''app_id'', JStr ''kimi''), (''typ'', JStr ''access'')]"
  let ?t = "''eyJhbGciOiJIUzI1NiJ9.eyJhcHBfaWQiOiJraW1pIiwidHlwIjoiYWNjZXNzIn0.c2ln''"
  have 1: "\<exists>rest. ?t = ''eyJ'' @ rest" by simp
  have "?t = ?a @ ''.'' @ ?b @ ''.'' @ ?c
      \<and> CHR ''.'' \<notin> set ?a \<and> CHR ''.'' \<notin> set ?b \<and> CHR ''.'' \<notin> set ?c
      \<and> JSON_parse reference_env (base64_toString reference_env ?b) = Inr (JObj ?props)
      \<and> property ?props ''app_id'' = Some (JStr ''kimi'')
      \<and> property ?props ''typ'' = Some (JStr ''access'')"
    by (simp add: reference_env_def reference_payload property_def)
  then have 2: "\<exists>a b c props. ?t = a @ ''.'' @ b @ ''.'' @ c
      \<and> CHR ''.'' \<notin> set a \<and> CHR ''.'' \<notin> set b \<and> CHR ''.'' \<notin> set c
      \<and> JSON_parse reference_env (base64_toString reference_env b) = Inr (JObj props)
      \<and> property props ''app_id'' = Some (JStr ''kimi'')
      \<and> property props ''typ'' = Some (JStr ''access'')"
    by blast
  from detectTokenType_classification [of reference_env ?t] 1 2 show ?thesis by blast
qed

theorem detectTokenType_three_segments_counterexample:
  "split_on CHR ''.'' ''abc.eyJhcHBfaWQiOiJraW1pIiwidHlwIjoiYWNjZXNzIn0.c2ln''
     = [''abc'', ''eyJhcHBfaWQiOiJraW1pIiwidHlwIjoiYWNjZXNzIn0'', ''c2ln'']
   \<and> JSON_parse reference_env
        (base64_toString reference_env ''eyJhcHBfaWQiOiJraW1pIiwidHlwIjoiYWNjZXNzIn0'')
     = Inr (JObj [(''app_id'', JStr ''kimi''), (''typ'', JStr ''access'')])
   \<and> detectTokenType reference_env ''abc.eyJhcHBfaWQiOiJraW1pIiwidHlwIjoiYWNjZXNzIn0.c2ln''
     = Inr Refresh"
  by (simp add: reference_env_def reference_payload detectTokenType_def)

section \<open>An opaque credential is refused before the RPC client exists\<close>

lemma emit_trace: "trace (emit e w) = trace w @ [e]"
  by (simp add: emit_def)

lemma rpc_count_emit:
  "rpc_count (emit e w) = (if is_rpc_event e then Suc (rpc_count w) else rpc_count w)"
  by (simp add: rpc_count_def emit_def)

lemma opaque_is_refresh: "detectTokenType reference_env ''opaque-refresh-token'' = Inr Refresh"
  by (simp add: detectTokenType_def)

text \<open>
  Claim C2. For every model name, message list and credential that does not classify as
  \<open>jwt\<close>, both \<open>createCompletionV2\<close> and \<open>createCompletionStreamV2\<close> fail with the error that
  asks for a JWT token, and the number of constructions and calls of the RPC client is what
  it was before the call: none happens on that path.
\<close>

theorem opaque_credential_rejected_before_rpc:
  assumes "detectTokenType env token \<noteq> Inr Jwt"
  shows "fst (createCompletionV2 env model messages token w)
           = Inl (UnsupportedCredentialType '' See docs/CONNECT_RPC_CONFIG_GUIDE.md'')
       \<and> rpc_count (snd (createCompletionV2 env model messages token w)) = rpc_count w
       \<and> fst (createCompletionStreamV2 env model messages token w)
           = Inl (UnsupportedCredentialType [])
       \<and> rpc_count (snd (createCompletionStreamV2 env model messages token w)) = rpc_count w"
proof -
  from assms detectTokenType_total [of env token]
  have r: "detectTokenType env token = Inr Refresh" by blast
  show ?thesis
    by (simp add: createCompletionV2_def createCompletionStreamV2_def r Let_def
        rpc_count_emit is_rpc_event_def)
qed

theorem opaque_credential_rejected_before_rpc_witness:
  "detectTokenType reference_env ''opaque-refresh-token'' \<noteq> Inr Jwt
   \<and> fst (createCompletionV2 reference_env ''kimi-k2.5''
            [JObj [(''role'', JStr ''user''), (''content'', JStr ''Hi'')]]
            ''opaque-refresh-token'' world0)
       = Inl (APIException API_REQUEST_FAILED
           ''Connect RPC requires JWT token. Please extract kimi-auth from browser cookies. See docs/CONNECT_RPC_CONFIG_GUIDE.md'')
   \<and> rpc_count (snd (createCompletionV2 reference_env ''kimi-k2.5''
            [JObj [(''role'', JStr ''user''), (''content'', JStr ''Hi'')]]
            ''opaque-refresh-token'' world0)) = 0
   \<and> fst (createCompletionStreamV2 reference_env ''kimi-k2.5''
            [JObj [(''role'', JStr ''user''), (''content'', JStr ''Hi'')]]
            ''opaque-refresh-token'' world0)
       = Inl (APIException API_REQUEST_FAILED
           ''Connect RPC requires JWT token. Please extract kimi-auth from browser cookies.'')
   \<and> rpc_count (snd (createCompletionStreamV2 reference_env ''kimi-k2.5''
            [JObj [(''role'', JStr ''user''), (''content'', JStr ''Hi'')]]
            ''opaque-refresh-token'' world0)) = 0"
proof -
  have h: "detectTokenType reference_env ''opaque-refresh-token'' \<noteq> Inr Jwt"
    by (simp add: opaque_is_refresh)
  have z: "rpc_count world0 = 0"
    by (simp add: rpc_count_def world0_def)
  from opaque_credential_rejected_before_rpc [OF h, of "''kimi-k2.5''"
      "[JObj [(''role'', JStr ''user''), (''content'', JStr ''Hi'')]]" world0] h z
  show ?thesis by (simp add: UnsupportedCredentialType_def)
qed

section \<open>Reading the claims of a credential\<close>

lemma extract_forms:
  "extractDeviceIdFromJWT env token =
     Inr (case parse_payload env token of Inl e \<Rightarrow> JUndefined
          | Inr p \<Rightarrow> (case get_prop p ''device_id'' of Inl e \<Rightarrow> JUndefined | Inr v \<Rightarrow> v))"
  "extractSessionIdFromJWT env token =
     Inr (case parse_payload env token of Inl e \<Rightarrow> JUndefined
          | Inr p \<Rightarrow> (case get_prop p ''ssid'' of Inl e \<Rightarrow> JUndefined | Inr v \<Rightarrow> v))"
  "extractUserIdFromJWT env token =
     Inr (case parse_payload env token of Inl e \<Rightarrow> JUndefined
          | Inr p \<Rightarrow> (case get_prop p ''sub'' of Inl e \<Rightarrow> JUndefined | Inr v \<Rightarrow> v))"
  by (simp_all add: extractDeviceIdFromJWT_def extractSessionIdFromJWT_def
      extractUserIdFromJWT_def split: sum.splits)

lemma claims_payload:
  "json_parse (base64_decode
      ''eyJhcHBfaWQiOiJraW1pIiwidHlwIjoiYWNjZXNzIiwiZGV2aWNlX2lkIjoiZC0xIiwic3ViIjoidS05In0'')
     = Inr (JObj [(''app_id'', JStr ''kimi''), (''typ'', JStr ''access''),
                  (''device_id'', JStr ''d-1''), (''sub'', JStr ''u-9'')])"
  by code_simp

lemma claims_token_payload:
  "parse_payload reference_env
     ''eyJhbGciOiJIUzI1NiJ9.eyJhcHBfaWQiOiJraW1pIiwidHlwIjoiYWNjZXNzIiwiZGV2aWNlX2lkIjoiZC0xIiwic3ViIjoidS05In0.c2ln''
     = Inr (JObj [(''app_id'', JStr ''kimi''), (''typ'', JStr ''access''),
                  (''device_id'', JStr ''d-1''), (''sub'', JStr ''u-9'')])"
  by (simp add: parse_payload_def reference_env_def claims_payload)

lemma no_segment_payload: "parse_payload reference_env ''opaque-refresh-token'' = Inl TypeError"
  by (simp add: parse_payload_def)

text \<open>
  Claim C9. For every credential string each of the three extractions (device identifier,
  session identifier, user identifier) returns a value and never raises. When the payload
  cannot be decoded, or decodes to \<open>null\<close>, each returns \<open>undefined\<close>. When it decodes to an
  object, each returns the value of its own property, or \<open>undefined\<close> where the object has
  none: no extraction depends on what another one found. The configuration is assembled
  from the three results and no failure reaches it.
\<close>

theorem claims_extraction_isolated:
  "(\<exists>d. extractDeviceIdFromJWT env token = Inr d)
   \<and> (\<exists>s. extractSessionIdFromJWT env token = Inr s)
   \<and> (\<exists>u. extractUserIdFromJWT env token = Inr u)
   \<and> ((\<exists>e. parse_payload env token = Inl e) \<or> parse_payload env token = Inr JNull \<longrightarrow>
        extractDeviceIdFromJWT env token = Inr JUndefined
        \<and> extractSessionIdFromJWT env token = Inr JUndefined
        \<and> extractUserIdFromJWT env token = Inr JUndefined)
   \<and> (\<forall>props. parse_payload env token = Inr (JObj props) \<longrightarrow>
        extractDeviceIdFromJWT env token
          = Inr (case property props ''device_id'' of None \<Rightarrow> JUndefined | Some v \<Rightarrow> v)
        \<and> extractSessionIdFromJWT env token
          = Inr (case property props ''ssid'' of None \<Rightarrow> JUndefined | Some v \<Rightarrow> v)
        \<and> extractUserIdFromJWT env token
          = Inr (case property props ''sub'' of None \<Rightarrow> JUndefined | Some v \<Rightarrow> v))
   \<and> (\<exists>d s u. extractDeviceIdFromJWT env token = Inr d
        \<and> extractSessionIdFromJWT env token = Inr s
        \<and> extractUserIdFromJWT env token = Inr u
        \<and> connect_config_of env token
          = Inr \<lparr>baseUrl = ''https://www.kimi.com'', authToken = token,
                 deviceId = d, sessionId = s, userId = u\<rparr>)"
  by (auto simp: extract_forms connect_config_of_def)

theorem claims_extraction_isolated_witness:
  "extractDeviceIdFromJWT reference_env
     ''eyJhbGciOiJIUzI1NiJ9.eyJhcHBfaWQiOiJraW1pIiwidHlwIjoiYWNjZXNzIiwiZGV2aWNlX2lkIjoiZC0xIiwic3ViIjoidS05In0.c2ln''
     = Inr (JStr ''d-1'')
   \<and> extractSessionIdFromJWT reference_env
     ''eyJhbGciOiJIUzI1NiJ9.eyJhcHBfaWQiOiJraW1pIiwidHlwIjoiYWNjZXNzIiwiZGV2aWNlX2lkIjoiZC0xIiwic3ViIjoidS05In0.c2ln''
     = Inr JUndefined
   \<and> extractUserIdFromJWT reference_env
     ''eyJhbGciOiJIUzI1NiJ9.eyJhcHBfaWQiOiJraW1pIiwidHlwIjoiYWNjZXNzIiwiZGV2aWNlX2lkIjoiZC0xIiwic3ViIjoidS05In0.c2ln''
     = Inr (JStr ''u-9'')
   \<and> parse_payload reference_env ''opaque-refresh-token'' = Inl TypeError
   \<and> extractDeviceIdFromJWT reference_env ''opaque-refresh-token'' = Inr JUndefined
   \<and> extractSessionIdFromJWT reference_env ''opaque-refresh-token'' = Inr JUndefined
   \<and> extractUserIdFromJWT reference_env ''opaque-refresh-token'' = Inr JUndefined"
  using claims_extraction_isolated [of reference_env
      "''eyJhbGciOiJIUzI1NiJ9.eyJhcHBfaWQiOiJraW1pIiwidHlwIjoiYWNjZXNzIiwiZGV2aWNlX2lkIjoiZC0xIiwic3ViIjoidS05In0.c2ln''"]
    claims_extraction_isolated [of reference_env "''opaque-refresh-token''"]
    claims_token_payload no_segment_payload
  by (simp add: property_def)

section \<open>Extraction of the credential\<close>

lemma lower_Bearer: "map ascii_lower ''Bearer'' = ''bearer''"
  by code_simp

lemma is_space_blank: "is_space CHR '' ''"
  by (simp add: is_space_def)

lemma trim_dropWhile: "trim (dropWhile is_space s) = trim s"
  by (simp add: trim_def)

lemma replace_Bearer_synthesized: "replace_Bearer (''Bearer '' @ k) = dropWhile is_space k"
proof -
  have "take 6 (''Bearer '' @ k) = ''Bearer''" "drop 6 (''Bearer '' @ k) = CHR '' '' # k"
    by simp_all
  then show ?thesis
    unfolding replace_Bearer_def by (simp only: lower_Bearer is_space_blank list.case dropWhile.simps if_True simp_thms)
qed

lemma normalize_synthesized: "trim (replace_Bearer (''Bearer '' @ k)) = trim k"
  by (simp only: replace_Bearer_synthesized trim_dropWhile)

lemma extractAuthToken_world:
  "snd (extractAuthToken headers w) =
     emit (Console_log ''DEBUG: API key found:'')
       (emit (Console_log ''DEBUG: Auth header found:'')
         (emit (Console_log ''DEBUG: All headers:'') w))"
  by (simp add: extractAuthToken_def Let_def split: option.splits)

lemma extractAuthToken_rpc_count: "rpc_count (snd (extractAuthToken headers w)) = rpc_count w"
  by (simp add: extractAuthToken_world rpc_count_emit is_rpc_event_def)

lemma errors_distinct: "MissingCredential \<noteq> InvalidCredentialFormat"
  by (simp add: MissingCredential_def InvalidCredentialFormat_def)

lemma extractAuthToken_authorization:
  "headers ''authorization'' = Some a \<Longrightarrow> a \<noteq> [] \<Longrightarrow>
     fst (extractAuthToken headers w) =
       (if trim (replace_Bearer a) = [] then Inl InvalidCredentialFormat
        else Inr (trim (replace_Bearer a)))"
  by (simp add: extractAuthToken_def Let_def)

lemma extractAuthToken_apiKey:
  "headers ''authorization'' = None \<or> headers ''authorization'' = Some [] \<Longrightarrow>
   headers ''x-goog-api-key'' = Some k \<Longrightarrow> k \<noteq> [] \<Longrightarrow>
     fst (extractAuthToken headers w) =
       (if trim k = [] then Inl InvalidCredentialFormat else Inr (trim k))"
  using normalize_synthesized [of k] by (auto simp: extractAuthToken_def Let_def)

lemma extractAuthToken_missing:
  "headers ''authorization'' = None \<or> headers ''authorization'' = Some [] \<Longrightarrow>
   headers ''x-goog-api-key'' = None \<or> headers ''x-goog-api-key'' = Some [] \<Longrightarrow>
     fst (extractAuthToken headers w) = Inl MissingCredential"
  by (auto simp: extractAuthToken_def Let_def)

lemma trim_examples:
  "trim (replace_Bearer ''Bearer xyz'') = ''xyz''"
  "trim ''Bearer xyz'' = ''Bearer xyz''"
  "trim (replace_Bearer ''bearer   '') = []"
  "trim (replace_Bearer ''Bearer abc.def '') = ''abc.def''"
  "trim '' key-1 '' = ''key-1''"
  "trim ''   '' = []"
  by code_simp+

text \<open>
  Claim C7, as the code has it. \<open>extractAuthToken\<close> fails with \<open>MissingCredential\<close> exactly
  when neither the \<open>authorization\<close> header nor the \<open>x-goog-api-key\<close> header has a value that
  is not empty: a header that is present with the empty string counts as missing. With a
  header value that is not empty it fails with the distinct error \<open>InvalidCredentialFormat\<close>
  when the token is empty after the \<open>Bearer\<close> prefix and the white space are removed, and
  otherwise returns that token. Neither path constructs or calls the RPC client.
\<close>

theorem extractAuthToken_failures:
  "(fst (extractAuthToken headers w) = Inl MissingCredential \<longleftrightarrow>
      (headers ''authorization'' = None \<or> headers ''authorization'' = Some [])
      \<and> (headers ''x-goog-api-key'' = None \<or> headers ''x-goog-api-key'' = Some []))
   \<and> (\<forall>a. headers ''authorization'' = Some a \<and> a \<noteq> [] \<longrightarrow>
        fst (extractAuthToken headers w) =
          (if trim (replace_Bearer a) = [] then Inl InvalidCredentialFormat
           else Inr (trim (replace_Bearer a))))
   \<and> (\<forall>k. (headers ''authorization'' = None \<or> headers ''authorization'' = Some [])
          \<and> headers ''x-goog-api-key'' = Some k \<and> k \<noteq> [] \<longrightarrow>
        fst (extractAuthToken headers w) =
          (if trim (replace_Bearer (''Bearer '' @ k)) = [] then Inl InvalidCredentialFormat
           else Inr (trim (replace_Bearer (''Bearer '' @ k)))))
   \<and> MissingCredential \<noteq> InvalidCredentialFormat
   \<and> rpc_count (snd (extractAuthToken headers w)) = rpc_count w"
proof -
  have m: "fst (extractAuthToken headers w) = Inl MissingCredential \<longleftrightarrow>
      (headers ''authorization'' = None \<or> headers ''authorization'' = Some [])
      \<and> (headers ''x-goog-api-key'' = None \<or> headers ''x-goog-api-key'' = Some [])"
  proof (cases "headers ''authorization'' = None \<or> headers ''authorization'' = Some []")
    case True
    note a = this
    show ?thesis
    proof (cases "headers ''x-goog-api-key'' = None \<or> headers ''x-goog-api-key'' = Some []")
      case True
      with a extractAuthToken_missing [of headers w] show ?thesis by blast
    next
      case False
      then obtain k where k: "headers ''x-goog-api-key'' = Some k" "k \<noteq> []" by auto
      from extractAuthToken_apiKey [of headers k w, OF a k] errors_distinct False show ?thesis
        by (auto split: if_splits)
    qed
  next
    case False
    then obtain a where a: "headers ''authorization'' = Some a" "a \<noteq> []" by auto
    from extractAuthToken_authorization [of headers a w, OF a] errors_distinct False show ?thesis
      by (auto split: if_splits)
  qed
  show ?thesis
    using m extractAuthToken_authorization [of headers _ w]
      extractAuthToken_apiKey [of headers _ w] errors_distinct
      extractAuthToken_rpc_count [of headers w]
    by (simp only: normalize_synthesized) blast
qed

theorem extractAuthToken_failures_witness:
  "fst (extractAuthToken Map.empty world0) = Inl MissingCredential
   \<and> fst (extractAuthToken [''authorization'' \<mapsto> ''bearer   ''] world0)
       = Inl InvalidCredentialFormat
   \<and> fst (extractAuthToken [''authorization'' \<mapsto> ''Bearer abc.def ''] world0)
       = Inr ''abc.def''
   \<and> fst (extractAuthToken [''x-goog-api-key'' \<mapsto> ''   ''] world0)
       = Inl InvalidCredentialFormat
   \<and> rpc_count (snd (extractAuthToken Map.empty world0)) = 0"
proof -
  have z: "rpc_count world0 = 0"
    by (simp add: rpc_count_def world0_def)
  show ?thesis
    using extractAuthToken_failures [of Map.empty world0]
      extractAuthToken_failures [of "[''authorization'' \<mapsto> ''bearer   '']" world0]
      extractAuthToken_failures [of "[''authorization'' \<mapsto> ''Bearer abc.def '']" world0]
      extractAuthToken_failures [of "[''x-goog-api-key'' \<mapsto> ''   '']" world0]
      normalize_synthesized [of "''   ''"] z
    by (simp add: trim_examples)
qed

theorem empty_authorization_counterexample:
  "[''authorization'' \<mapsto> []] ''authorization'' = Some []
   \<and> fst (extractAuthToken [''authorization'' \<mapsto> []] world0) = Inl MissingCredential
   \<and> fst (extractAuthToken [''authorization'' \<mapsto> []] world0) \<noteq> Inl InvalidCredentialFormat"
  by (simp add: extractAuthToken_def Let_def errors_distinct)

text \<open>
  Claim C6, as the code has it. When \<open>authorization\<close> is absent and \<open>x-goog-api-key\<close> has the
  value \<open>k\<close>, the token is \<open>k\<close> with the white space around it removed; extraction fails
  with \<open>MissingCredential\<close> when \<open>k\<close> is empty and with \<open>InvalidCredentialFormat\<close> when \<open>k\<close> is
  white space only. The code puts \<open>Bearer\<close> and a space in front of \<open>k\<close> and removes one
  prefix, so a \<open>Bearer\<close> prefix that \<open>k\<close> itself starts with stays in the token.
\<close>

theorem apiKey_token_is_trimmed_key:
  assumes "headers ''authorization'' = None" and "headers ''x-goog-api-key'' = Some k"
  shows "fst (extractAuthToken headers w) =
           (if k = [] then Inl MissingCredential
            else if trim k = [] then Inl InvalidCredentialFormat
            else Inr (trim k))"
proof (cases "k = []")
  case True
  with assms extractAuthToken_missing [of headers w] show ?thesis by simp
next
  case False
  with assms extractAuthToken_apiKey [of headers k w] show ?thesis by simp
qed

theorem apiKey_token_is_trimmed_key_witness:
  "[''x-goog-api-key'' \<mapsto> '' key-1 ''] ''authorization'' = None
   \<and> [''x-goog-api-key'' \<mapsto> '' key-1 ''] ''x-goog-api-key'' = Some '' key-1 ''
   \<and> fst (extractAuthToken [''x-goog-api-key'' \<mapsto> '' key-1 ''] world0) = Inr ''key-1''"
proof -
  have a: "[''x-goog-api-key'' \<mapsto> '' key-1 ''] ''authorization'' = None" by simp
  have k: "[''x-goog-api-key'' \<mapsto> '' key-1 ''] ''x-goog-api-key'' = Some '' key-1 ''" by simp
  have v: "(if '' key-1 '' = [] then Inl MissingCredential
            else if trim '' key-1 '' = [] then Inl InvalidCredentialFormat
            else Inr (trim '' key-1 '')) = (Inr ''key-1'' :: js_error + string)"
    by (simp add: trim_examples)
  from apiKey_token_is_trimmed_key [OF a k, of world0]
  have "fst (extractAuthToken [''x-goog-api-key'' \<mapsto> '' key-1 ''] world0) = Inr ''key-1''"
    by (simp only: v)
  with a k show ?thesis by blast
qed

theorem apiKey_Bearer_prefix_counterexample:
  "[''x-goog-api-key'' \<mapsto> ''Bearer xyz''] ''authorization'' = None
   \<and> [''x-goog-api-key'' \<mapsto> ''Bearer xyz''] ''x-goog-api-key'' = Some ''Bearer xyz''
   \<and> trim (replace_Bearer ''Bearer xyz'') = ''xyz''
   \<and> fst (extractAuthToken [''x-goog-api-key'' \<mapsto> ''Bearer xyz''] world0)
       = Inr ''Bearer xyz''"
proof -
  have a: "[''x-goog-api-key'' \<mapsto> ''Bearer xyz''] ''authorization'' = None" by simp
  have k: "[''x-goog-api-key'' \<mapsto> ''Bearer xyz''] ''x-goog-api-key'' = Some ''Bearer xyz''"
    by simp
  have v: "(if trim ''Bearer xyz'' = [] then Inl InvalidCredentialFormat
            else Inr (trim ''Bearer xyz'')) = (Inr ''Bearer xyz'' :: js_error + string)"
    by (simp add: trim_examples)
  have n: "''Bearer xyz'' \<noteq> []" by simp
  from extractAuthToken_apiKey [of _ "''Bearer xyz''" world0, OF disjI1, OF a k n]
  have "fst (extractAuthToken [''x-goog-api-key'' \<mapsto> ''Bearer xyz''] world0)
          = Inr ''Bearer xyz''"
    by (simp only: v)
  with a k trim_examples(1) show ?thesis by blast
qed

section \<open>The text of the last message\<close>

lemma lastMessage_last: "messages \<noteq> [] \<Longrightarrow> lastMessage messages = last messages"
  by (cases messages) (simp_all add: lastMessage_def)

lemma filter_text_typed:
  "\<forall>p \<in> set parts. typed_part p \<Longrightarrow>
     \<exists>kept. filter_text parts = Inr kept \<and> map_text kept = Inr (map JStr (part_texts parts))"
proof (induction parts)
  case Nil
  then show ?case by simp
next
  case (Cons p ps)
  then obtain kept where k: "filter_text ps = Inr kept"
    "map_text kept = Inr (map JStr (part_texts ps))" by auto
  from Cons.prems obtain props where p: "p = JObj props"
    by (cases p) (auto simp: typed_part_def)
  show ?case
  proof (cases "property props ''type'' = Some (JStr ''text'')")
    case True
    with Cons.prems p obtain t where t: "property props ''text'' = Some (JStr t)"
      by (auto simp: typed_part_def split: option.splits jsval.splits)
    with True p k show ?thesis
      by simp
  next
    case False
    with p k show ?thesis
      by (auto split: option.splits)
  qed
qed

lemma join_js_strings: "join_js env [CHR 0x0A] (map JStr ts) = Inr (newline_joined ts)"
  by (induction ts rule: newline_joined.induct) (simp_all add: join_item_def)

lemma messageContent_string:
  "messages \<noteq> [] \<Longrightarrow> last messages = JObj props \<Longrightarrow>
   property props ''content'' = Some (JStr s) \<Longrightarrow> messageContent env messages = Inr s"
  by (simp add: messageContent_def lastMessage_last)

lemma messageContent_parts:
  assumes "messages \<noteq> []" and "last messages = JObj props"
    and "property props ''content'' = Some (JArr parts)"
    and "\<forall>p \<in> set parts. typed_part p"
  shows "messageContent env messages = Inr (newline_joined (part_texts parts))"
proof -
  from filter_text_typed [OF assms(4)] obtain kept where
    "filter_text parts = Inr kept" "map_text kept = Inr (map JStr (part_texts parts))" by blast
  with assms(1-3) show ?thesis
    by (simp add: messageContent_def lastMessage_last join_js_strings)
qed

lemma messageContent_other:
  "messages \<noteq> [] \<Longrightarrow> last messages = JObj props \<Longrightarrow>
   other_shape (case property props ''content'' of None \<Rightarrow> JUndefined | Some v \<Rightarrow> v) \<Longrightarrow>
   messageContent env messages = Inr []"
  by (auto simp: messageContent_def lastMessage_last other_shape_def
      split: jsval.splits option.splits)

lemma connect_config_of_total: "\<exists>config. connect_config_of env token = Inr config"
  by (simp add: connect_config_of_def extractDeviceIdFromJWT_def extractSessionIdFromJWT_def
      extractUserIdFromJWT_def split: sum.splits)

lemma rpc_events_emit:
  "rpc_events (emit e w) = (if is_rpc_event e then rpc_events w @ [e] else rpc_events w)"
  by (simp add: rpc_events_def emit_def)

lemma rpc_events_util [simp]:
  "rpc_events (snd (util_uuid env w)) = rpc_events w"
  "rpc_events (snd (util_unixTimestamp env w)) = rpc_events w"
  by (simp_all add: rpc_events_def util_uuid_def util_unixTimestamp_def)

lemma createCompletionV2_rpc_events:
  assumes "detectTokenType env token = Inr Jwt" and "messageContent env messages = Inr content"
    and "connect_config_of env token = Inr config"
  shows "rpc_events (snd (createCompletionV2 env model messages token w)) =
           rpc_events w @ [New_ConnectRPCClient config,
                           Client_chatText config content (resolveScenario model)]"
  using assms
  by (simp add: createCompletionV2_def Let_def rpc_events_emit is_rpc_event_def
      split: sum.splits option.splits prod.splits)
     (auto simp: util_uuid_def util_unixTimestamp_def rpc_events_def rpc_events_emit emit_def is_rpc_event_def)

lemma write_content_chunk_trace:
  "trace (fst (write_content_chunk env model msg (w, st))) = trace w"
  by (simp add: write_content_chunk_def content_chunk_def util_uuid_def util_unixTimestamp_def
      split: option.splits)

lemma write_end_chunk_trace:
  "trace (fst (write_end_chunk env model (w, st))) = trace w"
  by (simp add: write_end_chunk_def end_chunk_def util_uuid_def util_unixTimestamp_def)

lemma for_connectMessages_trace:
  "trace (fst (fst (for_connectMessages env model msgs (w, st)))) = trace w"
proof (induction msgs arbitrary: w st)
  case Nil
  then show ?case by simp
next
  case (Cons m ms)
  obtain w1 st1 where s1: "write_content_chunk env model m (w, st) = (w1, st1)"
    by (cases "write_content_chunk env model m (w, st)")
  from write_content_chunk_trace [of env model m w st] s1 have t: "trace w1 = trace w" by simp
  show ?case
    using Cons.IH [of w1 st1] write_end_chunk_trace [of env model w1 st1] t
    by (simp add: s1 Let_def)
qed

lemma createCompletionStreamV2_rpc_events:
  assumes "detectTokenType env token = Inr Jwt" and "messageContent env messages = Inr content"
    and "connect_config_of env token = Inr config"
  shows "rpc_events (snd (createCompletionStreamV2 env model messages token w)) =
           rpc_events w @ [New_ConnectRPCClient config,
                           Client_chat config content (resolveScenario model)]"
proof (cases "chat env config content (resolveScenario model)")
  case (Inl e)
  with assms show ?thesis
    by (simp add: createCompletionStreamV2_def Let_def rpc_events_emit is_rpc_event_def)
next
  case (Inr msgs)
  let ?w4 = "emit (Client_chat config content (resolveScenario model))
      (emit (Logger_info (Model_scenario model (resolveScenario model)))
        (emit (New_ConnectRPCClient config)
          (emit (Logger_info (Using_Connect_RPC_streaming model)) w)))"
  have "rpc_events (fst (fst (for_connectMessages env model msgs (?w4, new_PassThrough))))
      = rpc_events ?w4"
    by (simp add: rpc_events_def for_connectMessages_trace)
  with assms Inr show ?thesis
    by (simp add: createCompletionStreamV2_def Let_def rpc_events_emit is_rpc_event_def
        case_prod_beta)
qed

lemma access_token_payload:
  "parse_payload reference_env access_token
     = Inr (JObj [(''app_id'', JStr ''kimi''), (''typ'', JStr ''access''),
                  (''device_id'', JStr ''d-1''), (''sub'', JStr ''u-9'')])"
  by (simp add: access_token_def claims_token_payload)

lemma access_token_Jwt: "detectTokenType reference_env access_token = Inr Jwt"
proof -
  have "startsWith access_token ''eyJ''" "length (split_on CHR ''.'' access_token) = 3"
    by (simp_all add: access_token_def)
  then show ?thesis
    by (simp add: detectTokenType_def detectTokenType_try_def access_token_payload property_def)
qed

text \<open>
  Claim C5. The text taken from the last message of the list: a content that is a string is
  taken as it is; a content that is a list of typed parts gives the texts of the parts whose
  type is \<open>text\<close>, joined with a line feed (so the empty list gives the empty text); a
  content of any other shape, a missing one too, gives the empty text and nothing is raised.
  Both \<open>createCompletionV2\<close> and \<open>createCompletionStreamV2\<close> hand that text to the RPC client.
\<close>

theorem messageContent_rule:
  "(messages \<noteq> [] \<and> last messages = JObj props \<longrightarrow>
      (\<forall>s. property props ''content'' = Some (JStr s) \<longrightarrow> messageContent env messages = Inr s)
      \<and> (\<forall>parts. property props ''content'' = Some (JArr parts)
            \<and> (\<forall>p \<in> set parts. typed_part p) \<longrightarrow>
            messageContent env messages = Inr (newline_joined (part_texts parts)))
      \<and> (other_shape (case property props ''content'' of None \<Rightarrow> JUndefined | Some v \<Rightarrow> v) \<longrightarrow>
            messageContent env messages = Inr []))
   \<and> (detectTokenType env token = Inr Jwt \<longrightarrow>
        (\<forall>content. messageContent env messages = Inr content \<longrightarrow>
           (\<exists>config.
              rpc_events (snd (createCompletionV2 env model messages token w)) =
                rpc_events w @ [New_ConnectRPCClient config,
                                Client_chatText config content (resolveScenario model)]
              \<and> rpc_events (snd (createCompletionStreamV2 env model messages token w)) =
                rpc_events w @ [New_ConnectRPCClient config,
                                Client_chat config content (resolveScenario model)])))"
proof -
  obtain config where c: "connect_config_of env token = Inr config"
    using connect_config_of_total by blast
  show ?thesis
    using messageContent_string [of messages props _ env]
      messageContent_parts [of messages props _ env]
      messageContent_other [of messages props env]
      createCompletionV2_rpc_events [of env token messages _ config model w, OF _ _ c]
      createCompletionStreamV2_rpc_events [of env token messages _ config model w, OF _ _ c]
    by blast
qed

theorem messageContent_rule_witness:
  "messageContent reference_env [user_message (JStr ''hello'')] = Inr ''hello''
   \<and> messageContent reference_env
        [user_message (JArr [JObj [(''type'', JStr ''text''), (''text'', JStr ''a'')],
                             JObj [(''type'', JStr ''image''), (''url'', JStr ''u'')],
                             JObj [(''type'', JStr ''text''), (''text'', JStr ''b'')]])]
       = Inr [CHR ''a'', CHR 0x0A, CHR ''b'']
   \<and> messageContent reference_env [user_message (JArr [])] = Inr []
   \<and> messageContent reference_env [user_message JNull] = Inr []
   \<and> (\<exists>config.
         rpc_events (snd (createCompletionV2 reference_env ''kimi-k2.5''
             [user_message (JStr ''hello'')] access_token world0))
           = [New_ConnectRPCClient config,
              Client_chatText config ''hello'' \<lparr>scenario = ''SCENARIO_K2'', thinking = False\<rparr>]
         \<and> rpc_events (snd (createCompletionStreamV2 reference_env ''kimi-k2.5''
             [user_message (JStr ''hello'')] access_token world0))
           = [New_ConnectRPCClient config,
              Client_chat config ''hello'' \<lparr>scenario = ''SCENARIO_K2'', thinking = False\<rparr>])"
proof -
  let ?parts = "[JObj [(''type'', JStr ''text''), (''text'', JStr ''a'')],
                 JObj [(''type'', JStr ''image''), (''url'', JStr ''u'')],
                 JObj [(''type'', JStr ''text''), (''text'', JStr ''b'')]]"
  have m: "\<And>c. [user_message c] \<noteq> [] \<and>
      last [user_message c] = JObj [(''role'', JStr ''user''), (''content'', c)]
      \<and> property [(''role'', JStr ''user''), (''content'', c)] ''content'' = Some c"
    by (simp add: user_message_def property_def)
  have typed: "\<forall>p \<in> set ?parts. typed_part p"
    by (simp add: typed_part_def property_def)
  have texts: "newline_joined (part_texts ?parts) = [CHR ''a'', CHR 0x0A, CHR ''b'']"
    by (simp add: property_def)
  have empty: "\<forall>p \<in> set ([] :: jsval list). typed_part p"
    "newline_joined (part_texts []) = []" by simp_all
  have other: "other_shape JNull" by (simp add: other_shape_def)
  have w0: "rpc_events world0 = []" by (simp add: rpc_events_def world0_def)
  have sel: "resolveScenario ''kimi-k2.5'' = \<lparr>scenario = ''SCENARIO_K2'', thinking = False\<rparr>"
    by (simp add: resolveScenario_def)
  have 1: "messageContent reference_env [user_message (JStr ''hello'')] = Inr ''hello''"
    using messageContent_rule [where messages = "[user_message (JStr ''hello'')]"
        and props = "[(''role'', JStr ''user''), (''content'', JStr ''hello'')]"
        and env = reference_env] m [of "JStr ''hello''"]
    by blast
  have 2: "messageContent reference_env [user_message (JArr ?parts)]
      = Inr (newline_joined (part_texts ?parts))"
    using messageContent_rule [where messages = "[user_message (JArr ?parts)]"
        and props = "[(''role'', JStr ''user''), (''content'', JArr ?parts)]"
        and env = reference_env] m [of "JArr ?parts"] typed
    by blast
  have 3: "messageContent reference_env [user_message (JArr [])]
      = Inr (newline_joined (part_texts []))"
    using messageContent_rule [where messages = "[user_message (JArr [])]"
        and props = "[(''role'', JStr ''user''), (''content'', JArr [])]"
        and env = reference_env] m [of "JArr []"] empty(1)
    by blast
  have 4: "messageContent reference_env [user_message JNull] = Inr []"
    using messageContent_rule [where messages = "[user_message JNull]"
        and props = "[(''role'', JStr ''user''), (''content'', JNull)]"
        and env = reference_env] m [of JNull] other
    by simp
  have 5: "\<exists>config.
         rpc_events (snd (createCompletionV2 reference_env ''kimi-k2.5''
             [user_message (JStr ''hello'')] access_token world0))
           = rpc_events world0 @ [New_ConnectRPCClient config,
              Client_chatText config ''hello'' (resolveScenario ''kimi-k2.5'')]
         \<and> rpc_events (snd (createCompletionStreamV2 reference_env ''kimi-k2.5''
             [user_message (JStr ''hello'')] access_token world0))
           = rpc_events world0 @ [New_ConnectRPCClient config,
              Client_chat config ''hello'' (resolveScenario ''kimi-k2.5'')]"
    using messageContent_rule [where messages = "[user_message (JStr ''hello'')]"
        and props = "[(''role'', JStr ''user''), (''content'', JStr ''hello'')]"
        and env = reference_env and token = access_token and model = "''kimi-k2.5''"
        and w = world0] access_token_Jwt 1
    by blast
  from 1 2 3 4 5 show ?thesis
    by (simp only: texts empty(2) w0 sel append_Nil) 
qed

text \<open>
  Where the rule does not reach: with no message at all, and with a list of parts that
  holds \<open>null\<close>, reading the property throws and the call fails with a TypeError.
\<close>

lemma messageContent_no_message: "messageContent env [] = Inl TypeError"
  by (simp add: messageContent_def lastMessage_def)

lemma messageContent_null_part:
  "messages \<noteq> [] \<Longrightarrow> last messages = JObj props \<Longrightarrow>
   property props ''content'' = Some (JArr parts) \<Longrightarrow> JNull \<in> set parts \<Longrightarrow>
   messageContent env messages = Inl TypeError"
proof -
  assume m: "messages \<noteq> []" "last messages = JObj props"
    "property props ''content'' = Some (JArr parts)" and n: "JNull \<in> set parts"
  from n have "filter_text parts = Inl TypeError"
  proof (induction parts)
    case Nil
    then show ?case by simp
  next
    case (Cons p ps)
    show ?case
    proof (cases "get_prop p ''type''")
      case (Inl e)
      then show ?thesis by (cases p) simp_all
    next
      case (Inr t)
      with Cons have "JNull \<in> set ps" by auto
      with Cons.IH Inr show ?thesis by simp
    qed
  qed
  with m show ?thesis
    by (simp add: messageContent_def lastMessage_last)
qed

section \<open>Usage counts of a completion\<close>

lemma createCompletionV2_success:
  assumes "detectTokenType env token = Inr Jwt" and "messageContent env messages = Inr content"
    and "connect_config_of env token = Inr config"
    and "chatText env config content (resolveScenario model) = Inr response"
  shows "\<exists>w'. createCompletionV2 env model messages token w =
           (Inr \<lparr>completion_id =
                   (case chatId response of
                      None \<Rightarrow> uuid env (uuids_drawn w)
                    | Some c \<Rightarrow> if c = [] then uuid env (uuids_drawn w) else c),
                 completion_model = model,
                 completion_object = ''chat.completion'',
                 completion_choices =
                   [\<lparr>choice_index = 0,
                     message = \<lparr>role = ''assistant'',
                                 message_content = response_text response\<rparr>,
                     choice_finish_reason = ''stop''\<rparr>],
                 completion_usage =
                   \<lparr>prompt_tokens = length content,
                    completion_tokens = length (response_text response),
                    total_tokens = length content + length (response_text response)\<rparr>,
                 completion_created = unixTimestamp env (clock_reads w)\<rparr>, w')"
  using assms
  by (simp add: createCompletionV2_def Let_def case_prod_beta util_uuid_def
      util_unixTimestamp_def emit_def split: option.splits)

lemma createCompletionV2_success_only:
  assumes "createCompletionV2 env model messages token w = (Inr r, w')"
  shows "\<exists>content config response.
           detectTokenType env token = Inr Jwt
           \<and> messageContent env messages = Inr content
           \<and> connect_config_of env token = Inr config
           \<and> chatText env config content (resolveScenario model) = Inr response"
proof -
  from assms have jwt: "detectTokenType env token = Inr Jwt"
    using detectTokenType_total [of env token]
    by (auto simp: createCompletionV2_def Let_def)
  from assms jwt obtain content where c: "messageContent env messages = Inr content"
    by (cases "messageContent env messages") (auto simp: createCompletionV2_def Let_def)
  obtain config where g: "connect_config_of env token = Inr config"
    using connect_config_of_total by blast
  from assms jwt c g obtain response where
    t: "chatText env config content (resolveScenario model) = Inr response"
    by (cases "chatText env config content (resolveScenario model)")
       (auto simp: createCompletionV2_def Let_def)
  from jwt c g t show ?thesis by blast
qed

lemma reference_chatText:
  "chatText reference_env config content sel = Inr \<lparr>chatId = None, response_text = ''Hello!''\<rparr>"
  by (simp add: reference_env_def)

text \<open>
  Claim C8. \<open>createCompletionV2\<close> succeeds whenever the credential is a JWT, the text of the
  last message can be taken and the backend answers, and only then. The completion it returns
  has \<open>prompt_tokens\<close> equal to the length of the text taken from the messages,
  \<open>completion_tokens\<close> equal to the length of the text the backend answered with, and
  \<open>total_tokens\<close> equal to their sum. A single message with the content \<open>Hi\<close> gives
  \<open>prompt_tokens\<close> equal to 2.
\<close>

theorem completion_usage_lengths:
  "(detectTokenType env token = Inr Jwt
      \<and> messageContent env messages = Inr content
      \<and> connect_config_of env token = Inr config
      \<and> chatText env config content (resolveScenario model) = Inr response
    \<longrightarrow> (\<exists>w'. createCompletionV2 env model messages token w =
           (Inr \<lparr>completion_id =
                   (case chatId response of
                      None \<Rightarrow> uuid env (uuids_drawn w)
                    | Some c \<Rightarrow> if c = [] then uuid env (uuids_drawn w) else c),
                 completion_model = model,
                 completion_object = ''chat.completion'',
                 completion_choices =
                   [\<lparr>choice_index = 0,
                     message = \<lparr>role = ''assistant'',
                                 message_content = response_text response\<rparr>,
                     choice_finish_reason = ''stop''\<rparr>],
                 completion_usage =
                   \<lparr>prompt_tokens = length content,
                    completion_tokens = length (response_text response),
                    total_tokens = length content + length (response_text response)\<rparr>,
                 completion_created = unixTimestamp env (clock_reads w)\<rparr>, w')))
   \<and> (\<forall>props. detectTokenType env token = Inr Jwt
          \<and> property props ''content'' = Some (JStr ''Hi'')
          \<and> connect_config_of env token = Inr config
          \<and> chatText env config ''Hi'' (resolveScenario model) = Inr response
        \<longrightarrow> (\<exists>r w'. createCompletionV2 env model [JObj props] token w = (Inr r, w')
               \<and> prompt_tokens (completion_usage r) = 2
               \<and> completion_tokens (completion_usage r) = length (response_text response)
               \<and> total_tokens (completion_usage r) = 2 + length (response_text response)))
   \<and> (\<forall>r w'. createCompletionV2 env model messages token w = (Inr r, w')
        \<longrightarrow> (\<exists>prompt cfg answer.
               detectTokenType env token = Inr Jwt
               \<and> messageContent env messages = Inr prompt
               \<and> connect_config_of env token = Inr cfg
               \<and> chatText env cfg prompt (resolveScenario model) = Inr answer
               \<and> prompt_tokens (completion_usage r) = length prompt
               \<and> completion_tokens (completion_usage r) = length (response_text answer)
               \<and> total_tokens (completion_usage r)
                   = length prompt + length (response_text answer)))"
proof (intro conjI allI impI)
  assume "detectTokenType env token = Inr Jwt
      \<and> messageContent env messages = Inr content
      \<and> connect_config_of env token = Inr config
      \<and> chatText env config content (resolveScenario model) = Inr response"
  then show "\<exists>w'. createCompletionV2 env model messages token w =
           (Inr \<lparr>completion_id =
                   (case chatId response of
                      None \<Rightarrow> uuid env (uuids_drawn w)
                    | Some c \<Rightarrow> if c = [] then uuid env (uuids_drawn w) else c),
                 completion_model = model,
                 completion_object = ''chat.completion'',
                 completion_choices =
                   [\<lparr>choice_index = 0,
                     message = \<lparr>role = ''assistant'',
                                 message_content = response_text response\<rparr>,
                     choice_finish_reason = ''stop''\<rparr>],
                 completion_usage =
                   \<lparr>prompt_tokens = length content,
                    completion_tokens = length (response_text response),
                    total_tokens = length content + length (response_text response)\<rparr>,
                 completion_created = unixTimestamp env (clock_reads w)\<rparr>, w')"
    using createCompletionV2_success [of env token messages content config model response w]
    by blast
next
  fix props
  assume a: "detectTokenType env token = Inr Jwt
          \<and> property props ''content'' = Some (JStr ''Hi'')
          \<and> connect_config_of env token = Inr config
          \<and> chatText env config ''Hi'' (resolveScenario model) = Inr response"
  then have c: "messageContent env [JObj props] = Inr ''Hi''"
    using messageContent_string [of "[JObj props]" props "''Hi''" env] by simp
  from a c createCompletionV2_success [of env token "[JObj props]" "''Hi''" config model response w]
  obtain w' r where "createCompletionV2 env model [JObj props] token w = (Inr r, w')"
    "completion_usage r = \<lparr>prompt_tokens = length ''Hi'',
        completion_tokens = length (response_text response),
        total_tokens = length ''Hi'' + length (response_text response)\<rparr>"
    by auto
  then show "\<exists>r w'. createCompletionV2 env model [JObj props] token w = (Inr r, w')
               \<and> prompt_tokens (completion_usage r) = 2
               \<and> completion_tokens (completion_usage r) = length (response_text response)
               \<and> total_tokens (completion_usage r) = 2 + length (response_text response)"
    by auto
next
  fix r w'
  assume s: "createCompletionV2 env model messages token w = (Inr r, w')"
  from createCompletionV2_success_only [OF s] obtain prompt cfg answer where
    h: "detectTokenType env token = Inr Jwt" "messageContent env messages = Inr prompt"
      "connect_config_of env token = Inr cfg"
      "chatText env cfg prompt (resolveScenario model) = Inr answer" by blast
  from createCompletionV2_success [OF h, of w] s
  have "completion_usage r = \<lparr>prompt_tokens = length prompt,
        completion_tokens = length (response_text answer),
        total_tokens = length prompt + length (response_text answer)\<rparr>"
    by auto
  with h show "\<exists>prompt cfg answer.
               detectTokenType env token = Inr Jwt
               \<and> messageContent env messages = Inr prompt
               \<and> connect_config_of env token = Inr cfg
               \<and> chatText env cfg prompt (resolveScenario model) = Inr answer
               \<and> prompt_tokens (completion_usage r) = length prompt
               \<and> completion_tokens (completion_usage r) = length (response_text answer)
               \<and> total_tokens (completion_usage r)
                   = length prompt + length (response_text answer)"
    by auto
qed

theorem completion_usage_lengths_witness:
  "\<exists>r w'. createCompletionV2 reference_env ''kimi-k2.5'' [user_message (JStr ''Hi'')]
             access_token world0 = (Inr r, w')
     \<and> completion_object r = ''chat.completion''
     \<and> map choice_finish_reason (completion_choices r) = [''stop'']
     \<and> prompt_tokens (completion_usage r) = 2
     \<and> completion_tokens (completion_usage r) = 6
     \<and> total_tokens (completion_usage r) = 8"
proof -
  have c: "messageContent reference_env [user_message (JStr ''Hi'')] = Inr ''Hi''"
    by (simp add: messageContent_def lastMessage_def user_message_def property_def)
  obtain config where g: "connect_config_of reference_env access_token = Inr config"
    using connect_config_of_total by blast
  from completion_usage_lengths [of reference_env access_token "[user_message (JStr ''Hi'')]"
      "''Hi''" config "''kimi-k2.5''" "\<lparr>chatId = None, response_text = ''Hello!''\<rparr>" world0]
    access_token_Jwt c g reference_chatText [of config "''Hi''" "resolveScenario ''kimi-k2.5''"]
  obtain w' where r: "createCompletionV2 reference_env ''kimi-k2.5''
      [user_message (JStr ''Hi'')] access_token world0 =
        (Inr \<lparr>completion_id = uuid reference_env (uuids_drawn world0),
              completion_model = ''kimi-k2.5'',
              completion_object = ''chat.completion'',
              completion_choices =
                [\<lparr>choice_index = 0,
                  message = \<lparr>role = ''assistant'', message_content = ''Hello!''\<rparr>,
                  choice_finish_reason = ''stop''\<rparr>],
              completion_usage =
                \<lparr>prompt_tokens = 2, completion_tokens = 6, total_tokens = 8\<rparr>,
              completion_created = unixTimestamp reference_env (clock_reads world0)\<rparr>, w')"
    by auto
  show ?thesis
    apply (rule exI [of _ "\<lparr>completion_id = uuid reference_env (uuids_drawn world0),
              completion_model = ''kimi-k2.5'',
              completion_object = ''chat.completion'',
              completion_choices =
                [\<lparr>choice_index = 0,
                  message = \<lparr>role = ''assistant'', message_content = ''Hello!''\<rparr>,
                  choice_finish_reason = ''stop''\<rparr>],
              completion_usage =
                \<lparr>prompt_tokens = 2, completion_tokens = 6, total_tokens = 8\<rparr>,
              completion_created = unixTimestamp reference_env (clock_reads world0)\<rparr>"])
    apply (rule exI [of _ w'])
    by (simp add: r)
qed

section \<open>The end of a stream\<close>

lemma contents_append: "contents (xs @ ys) = contents xs @ contents ys"
  by (induction xs) (auto split: option.splits)

lemma content_frame_not_terminal: "content_frame c f \<Longrightarrow> \<not> terminal_chunk f \<and> f \<noteq> done_frame"
  by (cases f) (auto simp: content_frame_def terminal_chunk_def done_frame_def)


lemma content_frames_plain:
  "list_all2 content_frame cs fs \<Longrightarrow> \<forall>f \<in> set fs. \<not> terminal_chunk f \<and> f \<noteq> done_frame"
  by (induction rule: list_all2_induct) (auto dest: content_frame_not_terminal)

lemma write_content_chunk_stream:
  "\<exists>w' st' fs. write_content_chunk env model m (w, st) = (w', st')
     \<and> written st' = written st @ fs \<and> list_all2 content_frame (contents [m]) fs
     \<and> status st' = status st"
  by (auto simp: write_content_chunk_def content_chunk_def util_uuid_def util_unixTimestamp_def
      stream_write_def content_frame_def split: option.splits)


lemma for_connectMessages_no_done:
  "\<forall>m \<in> set msgs. \<not> msg_done m \<Longrightarrow>
     \<exists>w' st' fs. for_connectMessages env model msgs (w, st) = ((w', st'), [])
       \<and> written st' = written st @ fs \<and> list_all2 content_frame (contents msgs) fs
       \<and> status st' = status st"
proof (induction msgs arbitrary: w st)
  case Nil
  then show ?case by simp
next
  case (Cons m ms)
  obtain w1 st1 fs1 where s1: "write_content_chunk env model m (w, st) = (w1, st1)"
    and f1: "written st1 = written st @ fs1" "list_all2 content_frame (contents [m]) fs1"
      "status st1 = status st"
    using write_content_chunk_stream [of env model m w st] by blast
  from Cons.prems have "\<forall>m \<in> set ms. \<not> msg_done m" by simp
  from Cons.IH [OF this, of w1 st1] obtain w' st' fs where
    r: "for_connectMessages env model ms (w1, st1) = ((w', st'), [])"
    and f: "written st' = written st1 @ fs" "list_all2 content_frame (contents ms) fs"
      "status st' = status st1" by blast
  have c: "contents (m # ms) = contents [m] @ contents ms"
    using contents_append [of "[m]" ms] by simp
  from f1(2) f(2) have "list_all2 content_frame (contents (m # ms)) (fs1 @ fs)"
    unfolding c by (rule list_all2_appendI)
  with Cons.prems s1 r f1 f show ?case
    by (simp add: Let_def)
qed



lemma for_connectMessages_some_done:
  "done_frame \<in> set (written (snd (fst (for_connectMessages env model msgs (w, st))))) \<Longrightarrow>
   done_frame \<notin> set (written st) \<Longrightarrow> \<exists>m \<in> set msgs. msg_done m"
proof (rule ccontr)
  assume d: "done_frame \<in> set (written (snd (fst (for_connectMessages env model msgs (w, st)))))"
    and n: "done_frame \<notin> set (written st)" and "\<not> (\<exists>m \<in> set msgs. msg_done m)"
  then have "\<forall>m \<in> set msgs. \<not> msg_done m" by simp
  from for_connectMessages_no_done [OF this, of env model w st] obtain w' st' fs where
    "for_connectMessages env model msgs (w, st) = ((w', st'), [])"
    "written st' = written st @ fs" "list_all2 content_frame (contents msgs) fs" by blast
  with d n content_frames_plain [of "contents msgs" fs] show False by auto
qed

lemma chat_update_payload: "parse_payload (env\<lparr>chat := f\<rparr>) token = parse_payload env token"
  by (simp add: parse_payload_def split: option.splits)

lemma chat_update_detectTokenType:
  "detectTokenType (env\<lparr>chat := f\<rparr>) token = detectTokenType env token"
  by (simp add: detectTokenType_def detectTokenType_try_def chat_update_payload)


lemma chat_update_join_item: "join_item (env\<lparr>chat := f\<rparr>) v = join_item env v"
  by (simp add: join_item_def split: jsval.splits)

lemma chat_update_join: "join_js (env\<lparr>chat := f\<rparr>) sep vs = join_js env sep vs"
  by (induction vs rule: induct_list012)
     (simp_all add: chat_update_join_item cong: sum.case_cong)

lemma chat_update_messageContent:
  "messageContent (env\<lparr>chat := f\<rparr>) messages = messageContent env messages"
  by (simp add: messageContent_def chat_update_join cong: sum.case_cong jsval.case_cong)


lemma createCompletionStreamV2_run:
  assumes "detectTokenType env token = Inr Jwt" and "messageContent env messages = Inr content"
    and "connect_config_of env token = Inr config"
    and "chat env config content (resolveScenario model) = Inr msgs"
  shows "\<exists>w4. createCompletionStreamV2 env model messages token w =
           (Inr (stream_end (snd (fst (for_connectMessages env model msgs (w4, new_PassThrough))))),
            fst (fst (for_connectMessages env model msgs (w4, new_PassThrough))))"
proof -
  define w4 where "w4 = emit (Client_chat config content (resolveScenario model))
      (emit (Logger_info (Model_scenario model (resolveScenario model)))
        (emit (New_ConnectRPCClient config)
          (emit (Logger_info (Using_Connect_RPC_streaming model)) w)))"
  from assms have "createCompletionStreamV2 env model messages token w =
           (Inr (stream_end (snd (fst (for_connectMessages env model msgs (w4, new_PassThrough))))),
            fst (fst (for_connectMessages env model msgs (w4, new_PassThrough))))"
    by (simp add: createCompletionStreamV2_def Let_def case_prod_beta w4_def)
  then show ?thesis by (rule exI)
qed


lemma streaming_env_facts:
  "detectTokenType (streaming_env msgs) access_token = Inr Jwt"
  "messageContent (streaming_env msgs) [user_message (JStr ''Hi'')] = Inr ''Hi''"
  "chat (streaming_env msgs) config content sel = Inr msgs"
  by (simp_all add: streaming_env_def chat_update_detectTokenType access_token_Jwt
      chat_update_messageContent messageContent_def lastMessage_def user_message_def
      property_def)

lemma text_message_facts:
  "msg_done (text_message c d) = d"
  "block_text_content (text_message c d) = Some c"
  by (simp_all add: text_message_def block_text_content_def)



text \<open>
  Claim C10. When the backend's messages end without one marked done, the loop reaches every
  message, the stream is ended normally, and it holds only chunks that carry text: neither
  the terminal chunk nor the frame \<open>data: [DONE]\<close>. That frame is on the stream only if a
  message was marked done.
\<close>

theorem no_done_no_sentinel:
  assumes "detectTokenType env token = Inr Jwt" and "messageContent env messages = Inr content"
    and "connect_config_of env token = Inr config"
    and "chat env config content (resolveScenario model) = Inr msgs"
  shows "\<exists>stream w'.
           createCompletionStreamV2 env model messages token w = (Inr stream, w')
           \<and> status stream = Ended
           \<and> ((\<forall>m \<in> set msgs. \<not> msg_done m) \<longrightarrow>
                list_all2 content_frame (contents msgs) (written stream)
                \<and> (\<forall>f \<in> set (written stream). \<not> terminal_chunk f \<and> f \<noteq> done_frame)
                \<and> (\<forall>s. snd (for_connectMessages env model msgs s) = []))
           \<and> (done_frame \<in> set (written stream) \<longrightarrow> (\<exists>m \<in> set msgs. msg_done m))"
proof -
  obtain w4 where run: "createCompletionStreamV2 env model messages token w =
      (Inr (stream_end (snd (fst (for_connectMessages env model msgs (w4, new_PassThrough))))),
       fst (fst (for_connectMessages env model msgs (w4, new_PassThrough))))"
    using createCompletionStreamV2_run [OF assms(1-4)] by blast
  let ?st = "snd (fst (for_connectMessages env model msgs (w4, new_PassThrough)))"
  have ended: "status (stream_end ?st) = Ended" "written (stream_end ?st) = written ?st"
    by (simp_all add: stream_end_def)
  have quiet: "list_all2 content_frame (contents msgs) (written ?st)
      \<and> (\<forall>f \<in> set (written ?st). \<not> terminal_chunk f \<and> f \<noteq> done_frame)
      \<and> (\<forall>s. snd (for_connectMessages env model msgs s) = [])"
    if n: "\<forall>m \<in> set msgs. \<not> msg_done m"
  proof -
    from for_connectMessages_no_done [OF n, of env model w4 new_PassThrough]
    have a: "list_all2 content_frame (contents msgs) (written ?st)"
      by (auto simp: new_PassThrough_def)
    have "snd (for_connectMessages env model msgs s) = []" for s
      using for_connectMessages_no_done [OF n, of env model "fst s" "snd s"] by auto
    with a content_frames_plain [OF a] show ?thesis by blast
  qed
  have only: "\<exists>m \<in> set msgs. msg_done m" if "done_frame \<in> set (written ?st)"
    using for_connectMessages_some_done [of env model msgs w4 new_PassThrough] that
    by (simp add: new_PassThrough_def)
  show ?thesis
    apply (rule exI [of _ "stream_end ?st"])
    apply (rule exI [of _ "fst (fst (for_connectMessages env model msgs (w4, new_PassThrough)))"])
    using run ended quiet only by simp
qed

theorem no_done_no_sentinel_witness:
  "\<exists>stream w' f1 f2.
     createCompletionStreamV2
       (streaming_env [text_message ''Hel'' False, text_message ''lo'' False])
       ''kimi-k2.5'' [user_message (JStr ''Hi'')] access_token world0 = (Inr stream, w')
     \<and> status stream = Ended
     \<and> written stream = [f1, f2]
     \<and> content_frame ''Hel'' f1 \<and> content_frame ''lo'' f2
     \<and> \<not> terminal_chunk f1 \<and> \<not> terminal_chunk f2
     \<and> done_frame \<notin> set (written stream)"
proof -
  let ?msgs = "[text_message ''Hel'' False, text_message ''lo'' False]"
  let ?env = "streaming_env ?msgs"
  obtain config where g: "connect_config_of ?env access_token = Inr config"
    using connect_config_of_total by blast
  have c: "chat ?env config ''Hi'' (resolveScenario ''kimi-k2.5'') = Inr ?msgs"
    by (simp add: streaming_env_facts)
  have n: "\<forall>m \<in> set ?msgs. \<not> msg_done m"
    by (simp add: text_message_facts)
  from no_done_no_sentinel [OF streaming_env_facts(1) streaming_env_facts(2) g c, of world0] n
  obtain stream w' where
    r: "createCompletionStreamV2 ?env ''kimi-k2.5'' [user_message (JStr ''Hi'')]
          access_token world0 = (Inr stream, w')"
    and st: "status stream = Ended"
    and cf: "list_all2 content_frame (contents ?msgs) (written stream)"
    and plain: "\<forall>f \<in> set (written stream). \<not> terminal_chunk f \<and> f \<noteq> done_frame"
    by blast
  from cf obtain f1 f2 where fs: "written stream = [f1, f2]" "content_frame ''Hel'' f1"
    "content_frame ''lo'' f2"
    by (auto simp: text_message_facts list_all2_Cons1)
  show ?thesis
    apply (rule exI [of _ stream])
    apply (rule exI [of _ w'])
    apply (rule exI [of _ f1])
    apply (rule exI [of _ f2])
    using r st fs plain by auto
qed

end
